theory Spec2Isabelle
  imports Main "HOL-Library.Word"
begin

section \<open>Chaincode lifecycle: definitions, approvals and commits\<close>

text \<open>
  A shallow embedding of \<^verbatim>\<open>core/chaincode/lifecycle/lifecycle.go\<close>.
  Go's \<^verbatim>\<open>int64\<close> is a 64-bit word read as two's complement, so \<open>+\<close> wraps as in Go
  and the order comparisons are the signed ones. A \<^verbatim>\<open>[]byte\<close> is a list of
  8-bit words; where the code tests a slice against \<^verbatim>\<open>nil\<close> it is an \<open>option\<close>.
\<close>

type_synonym int64 = "64 word"
type_synonym byte = "8 word"
type_synonym bytes = "byte list"

subsection \<open>Constants\<close>

definition NamespacesName :: string where
  "NamespacesName = ''namespaces''"

definition ChaincodeSourcesName :: string where
  "ChaincodeSourcesName = ''chaincode-sources''"

definition ChaincodeDefinitionType :: string where
  "ChaincodeDefinitionType = ''ChaincodeDefinition''"

definition FriendlyChaincodeDefinitionType :: string where
  "FriendlyChaincodeDefinitionType = ''Chaincode''"

subsection \<open>Data model\<close>

record ChaincodeLocalPackage =
  Hash :: bytes

text \<open>
  The two protobuf messages the parameters point to, with the fields the code reads.
  The source states that an initialised instance has no nil fields, so the two info
  pointers are plain records; \<open>Collections\<close> is nil in the synthetic definition of the
  lifecycle namespace, so it is an \<open>option\<close>. The collection configuration package is a
  type parameter \<open>'c\<close>: \<^verbatim>\<open>proto.Equal\<close> on two such messages is equality on \<open>'c option\<close>
  (two nil pointers are equal, a nil and a non-nil pointer are not).
\<close>

record ChaincodeEndorsementInfo =
  Version :: string
  EndorsementPlugin :: string
  InitRequired :: bool

record ChaincodeValidationInfo =
  ValidationPlugin :: string
  ValidationParameter :: bytes

record 'c ChaincodeParameters =
  EndorsementInfo :: ChaincodeEndorsementInfo
  ValidationInfo :: ChaincodeValidationInfo
  Collections :: "'c option"

text \<open>
  \<^verbatim>\<open>ChaincodeDefinition\<close> has the three fields of the parameters and \<^verbatim>\<open>Sequence\<close>.
  The Go struct repeats the fields instead of embedding the parameters; here it is a
  record extension, so that both structs keep the field names of the source.
\<close>

record 'c ChaincodeDefinition = "'c ChaincodeParameters" +
  Sequence :: int64

record StateMetadata =
  Datatype :: string
  Fields :: "string list"

text \<open>What the code hands to the serializer as \<^verbatim>\<open>interface{}\<close>.\<close>

datatype 'c serializable =
    DefinitionStruct "'c ChaincodeDefinition"
  | ParametersStruct "'c ChaincodeParameters"
  | LocalPackageStruct ChaincodeLocalPackage

subsection \<open>Errors\<close>

text \<open>
  One constructor for each error the file creates (\<^verbatim>\<open>errors.Errorf\<close>) or wraps
  (\<^verbatim>\<open>errors.WithMessage\<close>), with the values formatted into the message, and
  \<open>ExternalError\<close> for an error that a collaborator (serializer, parser, store) creates.
\<close>

datatype error =
    ExternalError string
  | VersionMismatch string string
  | EndorsementPluginMismatch string string
  | ValidationPluginMismatch string string
  | ValidationParameterMismatch bytes bytes
  | CollectionsDoNotMatch
  | CouldNotDeserializeMetadataForChaincode string error
  | NotAChaincodeType string
  | CouldNotDeserializeChaincodeDefinition string error
  | CouldNotGetCurrentSequence error
  | NewDefinitionMustBeSequence int64 int64
  | CouldNotSerializeChaincodeDefinition error
  | RequestedSequenceIsZero
  | CurrentlyDefinedSequenceIsLarger int64 int64
  | RequestedSequenceIsLargerThanNext int64 int64
  | CouldNotFetchMetadataForCurrentDefinition error
  | MissingMetadataForCommittedSequence int64
  | CouldNotDeserializeNamespaceAsChaincode string error
  | AttemptedToDefineCurrentSequence error
  | CouldNotSerializeChaincodeParameters error
  | CouldNotSerializeChaincodePackageInfo error
  | CouldNotFetchMetadataForNamespace string error
  | NamespaceIsNotDefined string
  | CouldNotParseInstallPackage error
  | CouldNotSaveInstallPackage error
  | CouldNotQueryNamespaceMetadata error

subsection \<open>Comparing parameters\<close>

definition Equal :: "'c ChaincodeParameters \<Rightarrow> 'c ChaincodeParameters \<Rightarrow> error option" where
  "Equal cp ocp =
     (if Version (EndorsementInfo cp) \<noteq> Version (EndorsementInfo ocp) then
        Some (VersionMismatch (Version (EndorsementInfo cp)) (Version (EndorsementInfo ocp)))
      else if EndorsementPlugin (EndorsementInfo cp) \<noteq> EndorsementPlugin (EndorsementInfo ocp) then
        Some (EndorsementPluginMismatch (EndorsementPlugin (EndorsementInfo cp))
                (EndorsementPlugin (EndorsementInfo ocp)))
      else if ValidationPlugin (ValidationInfo cp) \<noteq> ValidationPlugin (ValidationInfo ocp) then
        Some (ValidationPluginMismatch (ValidationPlugin (ValidationInfo cp))
                (ValidationPlugin (ValidationInfo ocp)))
      else if ValidationParameter (ValidationInfo cp) \<noteq> ValidationParameter (ValidationInfo ocp) then
        Some (ValidationParameterMismatch (ValidationParameter (ValidationInfo cp))
                (ValidationParameter (ValidationInfo ocp)))
      else if Collections cp \<noteq> Collections ocp then Some CollectionsDoNotMatch
      else None)"

definition Parameters :: "'c ChaincodeDefinition \<Rightarrow> 'c ChaincodeParameters" where
  "Parameters cd =
     \<lparr>EndorsementInfo = EndorsementInfo cd,
      ValidationInfo = ValidationInfo cd,
      Collections = Collections cd\<rparr>"

subsection \<open>Collaborators\<close>

text \<open>
  The serializer, the package parser, the chaincode store and the state interfaces are
  declared outside \<^verbatim>\<open>lifecycle.go\<close>. Their methods are parameters here, typed from the
  calls the file makes: \<open>'s\<close> is a readable (and, where the code writes, writable) state,
  \<open>'o\<close> an \<^verbatim>\<open>OpaqueState\<close>. A method that only reads returns its result; \<open>Serialize\<close>
  returns the state it leaves behind together with its error, since it may have written
  before it fails. \<open>Deserialize\<close> fills a \<^verbatim>\<open>ChaincodeDefinition\<close> at every call site;
  \<open>DeserializeMetadata\<close> answers an error, not found (\<open>Inr None\<close>) or the metadata.
  The Go map that \<open>DeserializeAllMetadata\<close> returns is the list of its entries in the
  order the \<^verbatim>\<open>range\<close> loop visits them.
\<close>

record ('s, 'o, 'c) Serializer =
  Serialize :: "string \<Rightarrow> string \<Rightarrow> 'c serializable \<Rightarrow> 's \<Rightarrow> 's \<times> error option"
  Deserialize :: "string \<Rightarrow> string \<Rightarrow> StateMetadata \<Rightarrow> 's \<Rightarrow> error + 'c ChaincodeDefinition"
  DeserializeMetadata :: "string \<Rightarrow> string \<Rightarrow> 's \<Rightarrow> error + StateMetadata option"
  DeserializeAllMetadata :: "string \<Rightarrow> 's \<Rightarrow> error + (string \<times> StateMetadata) list"
  DeserializeFieldAsInt64 :: "string \<Rightarrow> string \<Rightarrow> string \<Rightarrow> 's \<Rightarrow> error + int64"
  IsSerialized :: "string \<Rightarrow> string \<Rightarrow> 'c serializable \<Rightarrow> 'o \<Rightarrow> bool \<times> error option"

record 'md ChaincodePackage =
  Metadata :: 'md

record 'md PackageParser =
  Parse :: "bytes \<Rightarrow> error + 'md ChaincodePackage"

text \<open>\<open>Save\<close> changes the store \<open>'st\<close> and returns the hash or an error.\<close>

record 'st ChaincodeStore =
  Save :: "string \<Rightarrow> string \<Rightarrow> bytes \<Rightarrow> 'st \<Rightarrow> (error + bytes) \<times> 'st"

text \<open>The listener's effect is a change of its own state \<open>'l\<close>.\<close>

record ('md, 'l) InstallListener =
  HandleChaincodeInstalled :: "'md \<Rightarrow> bytes \<Rightarrow> 'l \<Rightarrow> 'l"

record ('s, 'o, 'c, 'st, 'md) Resources =
  ChaincodeStore :: "'st ChaincodeStore"
  PackageParser :: "'md PackageParser"
  Serializer :: "('s, 'o, 'c) Serializer"

text \<open>The \<^verbatim>\<open>InstallListener\<close> interface value may be nil.\<close>

record ('s, 'o, 'c, 'st, 'md, 'l) ExternalFunctions =
  Resources :: "('s, 'o, 'c, 'st, 'md) Resources"
  InstallListener :: "('md, 'l) InstallListener option"

subsection \<open>Formatting a sequence number\<close>

text \<open>\<^verbatim>\<open>fmt.Sprintf("%s#%d", name, sequence)\<close>: the name, a hash sign, the decimal number.\<close>

definition digit :: "nat \<Rightarrow> char" where
  "digit n = char_of (48 + n)"

function decimal :: "nat \<Rightarrow> string" where
  "decimal n = (if n < 10 then [digit n] else decimal (n div 10) @ [digit (n mod 10)])"
  by pat_completeness auto
termination
  by (relation "measure id") auto

declare decimal.simps [simp del]

definition format_int64 :: "int64 \<Rightarrow> string" where
  "format_int64 i =
     (if sint i < 0 then CHR ''-'' # decimal (nat (- sint i)) else decimal (nat (sint i)))"

definition privateName :: "string \<Rightarrow> int64 \<Rightarrow> string" where
  "privateName name sequence = name @ ''#'' @ format_int64 sequence"

subsection \<open>The definition lookup of the resources\<close>

text \<open>
  \<open>LifecycleNamespace\<close> is a constant of the package declared in another file; it is the
  first argument here.
\<close>

definition ChaincodeDefinitionIfDefined ::
  "string \<Rightarrow> ('s, 'o, 'c, 'st, 'md) Resources \<Rightarrow> string \<Rightarrow> 's
     \<Rightarrow> bool \<times> 'c ChaincodeDefinition option \<times> error option" where
  "ChaincodeDefinitionIfDefined LifecycleNamespace r chaincodeName state =
     (if chaincodeName = LifecycleNamespace then
        (True,
         Some \<lparr>EndorsementInfo = \<lparr>Version = [], EndorsementPlugin = [], InitRequired = False\<rparr>,
               ValidationInfo = \<lparr>ValidationPlugin = [], ValidationParameter = []\<rparr>,
               Collections = None,
               Sequence = 0\<rparr>,
         None)
      else
        case DeserializeMetadata (Serializer r) NamespacesName chaincodeName state of
          Inl err \<Rightarrow>
            (False, None, Some (CouldNotDeserializeMetadataForChaincode chaincodeName err))
        | Inr None \<Rightarrow> (False, None, None)
        | Inr (Some metadata) \<Rightarrow>
            if Datatype metadata \<noteq> ChaincodeDefinitionType then
              (False, None, Some (NotAChaincodeType (Datatype metadata)))
            else
              (case Deserialize (Serializer r) NamespacesName chaincodeName metadata state of
                 Inl err \<Rightarrow>
                   (False, None, Some (CouldNotDeserializeChaincodeDefinition chaincodeName err))
               | Inr definedChaincode \<Rightarrow> (True, Some definedChaincode, None)))"

subsection \<open>Commit\<close>

text \<open>The loop over \<^verbatim>\<open>orgStates\<close>: one entry of \<^verbatim>\<open>agreement\<close> for each, in order.\<close>

fun agreementLoop ::
  "('s, 'o, 'c) Serializer \<Rightarrow> string \<Rightarrow> 'c ChaincodeDefinition \<Rightarrow> 'o list \<Rightarrow> bool list" where
  "agreementLoop ser pn cd [] = []"
| "agreementLoop ser pn cd (orgState # orgStates) =
     (case IsSerialized ser NamespacesName pn (ParametersStruct (Parameters cd)) orgState of
        (match, err) \<Rightarrow> (err = None \<and> match)) # agreementLoop ser pn cd orgStates"

text \<open>
  The result is the pair the Go function returns (a nil slice is \<open>None\<close>) and the public
  state after the call.
\<close>

definition CommitChaincodeDefinition ::
  "('s, 'o, 'c, 'st, 'md, 'l) ExternalFunctions \<Rightarrow> string \<Rightarrow> 'c ChaincodeDefinition \<Rightarrow> 's \<Rightarrow> 'o list
     \<Rightarrow> (bool list option \<times> error option) \<times> 's" where
  "CommitChaincodeDefinition ef name cd publicState orgStates =
     (case DeserializeFieldAsInt64 (Serializer (Resources ef)) NamespacesName name ''Sequence''
             publicState of
        Inl err \<Rightarrow> ((None, Some (CouldNotGetCurrentSequence err)), publicState)
      | Inr currentSequence \<Rightarrow>
          if Sequence cd \<noteq> currentSequence + 1 then
            ((None, Some (NewDefinitionMustBeSequence (Sequence cd) (currentSequence + 1))),
             publicState)
          else
            (let agreement = agreementLoop (Serializer (Resources ef))
                               (privateName name (Sequence cd)) cd orgStates
             in (case Serialize (Serializer (Resources ef)) NamespacesName name
                        (DefinitionStruct cd) publicState of
                   (publicState', Some err) \<Rightarrow>
                     ((None, Some (CouldNotSerializeChaincodeDefinition err)), publicState')
                 | (publicState', None) \<Rightarrow> ((Some agreement, None), publicState'))))"

subsection \<open>Approve\<close>

text \<open>The result is the error (\<open>None\<close> for nil) and the org state after the call.\<close>

definition ApproveChaincodeDefinitionForOrg ::
  "('s, 'o, 'c, 'st, 'md, 'l) ExternalFunctions \<Rightarrow> string \<Rightarrow> 'c ChaincodeDefinition
     \<Rightarrow> bytes option \<Rightarrow> 's \<Rightarrow> 's \<Rightarrow> error option \<times> 's" where
  "ApproveChaincodeDefinitionForOrg ef name cd localPackageHash publicState orgState =
     (case DeserializeFieldAsInt64 (Serializer (Resources ef)) NamespacesName name ''Sequence''
             publicState of
        Inl err \<Rightarrow> (Some (CouldNotGetCurrentSequence err), orgState)
      | Inr currentSequence \<Rightarrow>
          (let requestedSequence = Sequence cd in
           if currentSequence = requestedSequence \<and> requestedSequence = 0 then
             (Some RequestedSequenceIsZero, orgState)
           else if requestedSequence <s currentSequence then
             (Some (CurrentlyDefinedSequenceIsLarger currentSequence requestedSequence), orgState)
           else if currentSequence + 1 <s requestedSequence then
             (Some (RequestedSequenceIsLargerThanNext requestedSequence (currentSequence + 1)),
              orgState)
           else
             (case (if requestedSequence = currentSequence then
                      (case DeserializeMetadata (Serializer (Resources ef)) NamespacesName name
                              publicState of
                         Inl err \<Rightarrow> Some (CouldNotFetchMetadataForCurrentDefinition err)
                       | Inr None \<Rightarrow> Some (MissingMetadataForCommittedSequence currentSequence)
                       | Inr (Some metadata) \<Rightarrow>
                           (case Deserialize (Serializer (Resources ef)) NamespacesName name
                                   metadata publicState of
                              Inl err \<Rightarrow> Some (CouldNotDeserializeNamespaceAsChaincode name err)
                            | Inr definedChaincode \<Rightarrow>
                                (case Equal (Parameters definedChaincode) (Parameters cd) of
                                   Some err \<Rightarrow> Some (AttemptedToDefineCurrentSequence err)
                                 | None \<Rightarrow> None)))
                    else None) of
                Some err \<Rightarrow> (Some err, orgState)
              | None \<Rightarrow>
                  (let privateName = privateName name requestedSequence in
                   (case Serialize (Serializer (Resources ef)) NamespacesName privateName
                           (ParametersStruct (Parameters cd)) orgState of
                      (orgState', Some err) \<Rightarrow>
                        (Some (CouldNotSerializeChaincodeParameters err), orgState')
                    | (orgState', None) \<Rightarrow>
                        (case localPackageHash of
                           None \<Rightarrow> (None, orgState')
                         | Some hash \<Rightarrow>
                             (case Serialize (Serializer (Resources ef)) ChaincodeSourcesName
                                     privateName (LocalPackageStruct \<lparr>Hash = hash\<rparr>)
                                     orgState' of
                                (orgState'', Some err) \<Rightarrow>
                                  (Some (CouldNotSerializeChaincodePackageInfo err), orgState'')
                              | (orgState'', None) \<Rightarrow> (None, orgState''))))))))"

text \<open>
  The two errors that an approval returns after it has begun to write to the org state.
\<close>

fun isWriteError :: "error \<Rightarrow> bool" where
  "isWriteError (CouldNotSerializeChaincodeParameters err) = True"
| "isWriteError (CouldNotSerializeChaincodePackageInfo err) = True"
| "isWriteError err = False"

subsection \<open>Queries and install\<close>

definition QueryChaincodeDefinition ::
  "('s, 'o, 'c, 'st, 'md, 'l) ExternalFunctions \<Rightarrow> string \<Rightarrow> 's
     \<Rightarrow> 'c ChaincodeDefinition option \<times> error option" where
  "QueryChaincodeDefinition ef name publicState =
     (case DeserializeMetadata (Serializer (Resources ef)) NamespacesName name publicState of
        Inl err \<Rightarrow> (None, Some (CouldNotFetchMetadataForNamespace name err))
      | Inr None \<Rightarrow> (None, Some (NamespaceIsNotDefined name))
      | Inr (Some metadata) \<Rightarrow>
          (case Deserialize (Serializer (Resources ef)) NamespacesName name metadata publicState of
             Inl err \<Rightarrow> (None, Some (CouldNotDeserializeNamespaceAsChaincode name err))
           | Inr definedChaincode \<Rightarrow> (Some definedChaincode, None)))"

text \<open>
  The result is the pair the Go function returns, the store after the call and the
  listener's state after the call.
\<close>

definition InstallChaincode ::
  "('s, 'o, 'c, 'st, 'md, 'l) ExternalFunctions \<Rightarrow> string \<Rightarrow> string \<Rightarrow> bytes \<Rightarrow> 'st \<Rightarrow> 'l
     \<Rightarrow> (bytes option \<times> error option) \<times> 'st \<times> 'l" where
  "InstallChaincode ef name version chaincodeInstallPackage store listener =
     (case Parse (PackageParser (Resources ef)) chaincodeInstallPackage of
        Inl err \<Rightarrow> ((None, Some (CouldNotParseInstallPackage err)), store, listener)
      | Inr pkg \<Rightarrow>
          (case Save (ChaincodeStore (Resources ef)) name version chaincodeInstallPackage store of
             (Inl err, store') \<Rightarrow>
               ((None, Some (CouldNotSaveInstallPackage err)), store', listener)
           | (Inr hash, store') \<Rightarrow>
               ((Some hash, None), store',
                (case InstallListener ef of
                   None \<Rightarrow> listener
                 | Some l \<Rightarrow> HandleChaincodeInstalled l (Metadata pkg) hash listener))))"

text \<open>The \<^verbatim>\<open>range\<close> loop that fills the result map.\<close>

fun namespaceLoop ::
  "(string \<rightharpoonup> string) \<Rightarrow> (string \<times> StateMetadata) list \<Rightarrow> (string \<rightharpoonup> string)" where
  "namespaceLoop result [] = result"
| "namespaceLoop result ((key, val) # metadatas) =
     namespaceLoop
       (if Datatype val = ChaincodeDefinitionType
        then result(key \<mapsto> FriendlyChaincodeDefinitionType)
        else result(key \<mapsto> Datatype val))
       metadatas"

definition QueryNamespaceDefinitions ::
  "('s, 'o, 'c, 'st, 'md, 'l) ExternalFunctions \<Rightarrow> 's
     \<Rightarrow> (string \<rightharpoonup> string) option \<times> error option" where
  "QueryNamespaceDefinitions ef publicState =
     (case DeserializeAllMetadata (Serializer (Resources ef)) NamespacesName publicState of
        Inl err \<Rightarrow> (None, Some (CouldNotQueryNamespaceMetadata err))
      | Inr metadatas \<Rightarrow> (Some (namespaceLoop Map.empty metadatas), None))"

subsection \<open>What a write leaves in a state\<close>

text \<open>
  The contract of \<open>Serialize\<close> that the claims about stored entries rest on, for a
  function \<open>entry\<close> that reads the record stored in a state under a namespace and a key:
  a call that returns no error leaves its record at its namespace and key, and changes no
  other entry.
\<close>

definition writesEntry ::
  "('s, 'o, 'c) Serializer \<Rightarrow> ('s \<Rightarrow> string \<Rightarrow> string \<Rightarrow> 'c serializable option) \<Rightarrow> bool" where
  "writesEntry ser entry \<longleftrightarrow>
     (\<forall>ns k r s s'. Serialize ser ns k r s = (s', None) \<longrightarrow>
        entry s' ns k = Some r \<and>
        (\<forall>ns' k'. (ns', k') \<noteq> (ns, k) \<longrightarrow> entry s' ns' k' = entry s ns' k'))"

text \<open>
  The comparison the claims call structural equality of parameters: the five fields that
  \<open>Equal\<close> looks at.
\<close>

definition sameParameters :: "'c ChaincodeParameters \<Rightarrow> 'c ChaincodeParameters \<Rightarrow> bool" where
  "sameParameters p q \<longleftrightarrow>
     Version (EndorsementInfo p) = Version (EndorsementInfo q) \<and>
     EndorsementPlugin (EndorsementInfo p) = EndorsementPlugin (EndorsementInfo q) \<and>
     ValidationPlugin (ValidationInfo p) = ValidationPlugin (ValidationInfo q) \<and>
     ValidationParameter (ValidationInfo p) = ValidationParameter (ValidationInfo q) \<and>
     Collections p = Collections q"

subsection \<open>A store of whole records\<close>

text \<open>
  Modelled from the spec: the record codec (the serializer, declared outside
  \<^verbatim>\<open>lifecycle.go\<close>), as the codec contract of the specification describes its operations,
  over a state that keeps each record whole under its namespace and key. The sequence of
  an absent namespace is 0, reading an absent record is an error of \<open>IsSerialized\<close>, and
  the type tag of a record is the name of its Go type. It only instantiates the serializer
  in the concrete instances below.
\<close>

type_synonym 'c kvstate = "((string \<times> string) \<times> 'c serializable) list"

definition kvPut :: "string \<times> string \<Rightarrow> 'c serializable \<Rightarrow> 'c kvstate \<Rightarrow> 'c kvstate" where
  "kvPut k r s = (k, r) # filter (\<lambda>e. fst e \<noteq> k) s"

definition kvEntry :: "'c kvstate \<Rightarrow> string \<Rightarrow> string \<Rightarrow> 'c serializable option" where
  "kvEntry s ns k = map_of s (ns, k)"

fun metadataOf :: "'c serializable \<Rightarrow> StateMetadata" where
  "metadataOf (DefinitionStruct d) =
     \<lparr>Datatype = ''ChaincodeDefinition'',
      Fields = [''Sequence'', ''EndorsementInfo'', ''ValidationInfo'', ''Collections'']\<rparr>"
| "metadataOf (ParametersStruct p) =
     \<lparr>Datatype = ''ChaincodeParameters'',
      Fields = [''EndorsementInfo'', ''ValidationInfo'', ''Collections'']\<rparr>"
| "metadataOf (LocalPackageStruct l) =
     \<lparr>Datatype = ''ChaincodeLocalPackage'', Fields = [''Hash'']\<rparr>"

definition kvDeserialize ::
  "string \<Rightarrow> string \<Rightarrow> StateMetadata \<Rightarrow> 'c kvstate \<Rightarrow> error + 'c ChaincodeDefinition" where
  "kvDeserialize ns k md s =
     (case map_of s (ns, k) of
        Some (DefinitionStruct d) \<Rightarrow>
          if Datatype md = ''ChaincodeDefinition'' then Inr d
          else Inl (ExternalError ''type name mismatch'')
      | _ \<Rightarrow> Inl (ExternalError ''could not decode as ChaincodeDefinition''))"

definition kvDeserializeFieldAsInt64 ::
  "string \<Rightarrow> string \<Rightarrow> string \<Rightarrow> 'c kvstate \<Rightarrow> error + int64" where
  "kvDeserializeFieldAsInt64 ns k field s =
     (case map_of s (ns, k) of
        None \<Rightarrow> Inr 0
      | Some (DefinitionStruct d) \<Rightarrow>
          if field = ''Sequence'' then Inr (Sequence d) else Inl (ExternalError ''no such field'')
      | Some _ \<Rightarrow> Inl (ExternalError ''no such field''))"

definition kvIsSerialized ::
  "string \<Rightarrow> string \<Rightarrow> 'c serializable \<Rightarrow> 'c kvstate \<Rightarrow> bool \<times> error option" where
  "kvIsSerialized ns k r s =
     (case map_of s (ns, k) of
        None \<Rightarrow> (False, Some (ExternalError ''not found''))
      | Some r' \<Rightarrow> (r' = r, None))"

definition kvSerializer :: "('c kvstate, 'c kvstate, 'c) Serializer" where
  "kvSerializer =
     \<lparr>Serialize = (\<lambda>ns k r s. (kvPut (ns, k) r s, None)),
      Deserialize = kvDeserialize,
      DeserializeMetadata = (\<lambda>ns k s. Inr (map_option metadataOf (map_of s (ns, k)))),
      DeserializeAllMetadata =
        (\<lambda>ns s. Inr (map (\<lambda>e. (snd (fst e), metadataOf (snd e)))
                       (filter (\<lambda>e. fst (fst e) = ns) s))),
      DeserializeFieldAsInt64 = kvDeserializeFieldAsInt64,
      IsSerialized = kvIsSerialized\<rparr>"

text \<open>
  Sample collaborators for install: a parser that rejects the empty package and takes the
  first byte as metadata, a store that appends the package and answers its length as the
  hash, refusing an empty version, and a listener that logs what it is told.
\<close>

definition sampleParser :: "byte PackageParser" where
  "sampleParser =
     \<lparr>Parse = (\<lambda>data. case data of
                        [] \<Rightarrow> Inl (ExternalError ''empty package'')
                      | b # _ \<Rightarrow> Inr \<lparr>Metadata = b\<rparr>)\<rparr>"

definition sampleStore :: "(string \<times> string \<times> bytes) list ChaincodeStore" where
  "sampleStore =
     \<lparr>Save = (\<lambda>name version pkg st.
                if version = [] then (Inl (ExternalError ''no version''), st)
                else (Inr [of_nat (length pkg)], st @ [(name, version, pkg)]))\<rparr>"

definition sampleListener :: "(byte, (byte \<times> bytes) list) InstallListener" where
  "sampleListener = \<lparr>HandleChaincodeInstalled = (\<lambda>md hash log. log @ [(md, hash)])\<rparr>"

definition sampleFunctions ::
  "(nat kvstate, nat kvstate, nat, (string \<times> string \<times> bytes) list, byte, (byte \<times> bytes) list)
     ExternalFunctions" where
  "sampleFunctions =
     \<lparr>Resources =
        \<lparr>ChaincodeStore = sampleStore, PackageParser = sampleParser, Serializer = kvSerializer\<rparr>,
      InstallListener = Some sampleListener\<rparr>"

text \<open>The same functions over a serializer whose writes fail.\<close>

definition withSerialize ::
  "(string \<Rightarrow> string \<Rightarrow> 'c serializable \<Rightarrow> 's \<Rightarrow> 's \<times> error option)
     \<Rightarrow> ('s, 'o, 'c, 'st, 'md, 'l) ExternalFunctions \<Rightarrow> ('s, 'o, 'c, 'st, 'md, 'l) ExternalFunctions" where
  "withSerialize f ef =
     ef\<lparr>Resources := (Resources ef)\<lparr>Serializer := (Serializer (Resources ef))\<lparr>Serialize := f\<rparr>\<rparr>\<rparr>"

definition failingWrites :: "string \<Rightarrow> string \<Rightarrow> 'c serializable \<Rightarrow> 's \<Rightarrow> 's \<times> error option" where
  "failingWrites ns k r s = (s, Some (ExternalError ''write failed''))"

definition failingSourceWrites ::
  "string \<Rightarrow> string \<Rightarrow> 'c serializable \<Rightarrow> 'c kvstate \<Rightarrow> 'c kvstate \<times> error option" where
  "failingSourceWrites ns k r s =
     (if ns = ChaincodeSourcesName then (s, Some (ExternalError ''write failed''))
      else (kvPut (ns, k) r s, None))"

text \<open>Sample definitions: \<open>sampleDefinition n v\<close> has sequence \<open>n\<close> and version \<open>v\<close>.\<close>

definition sampleDefinition :: "int64 \<Rightarrow> string \<Rightarrow> nat ChaincodeDefinition" where
  "sampleDefinition n v =
     \<lparr>EndorsementInfo = \<lparr>Version = v, EndorsementPlugin = ''builtin'', InitRequired = True\<rparr>,
      ValidationInfo = \<lparr>ValidationPlugin = ''builtin'', ValidationParameter = [1, 2]\<rparr>,
      Collections = Some 7,
      Sequence = n\<rparr>"

text \<open>
  Sample parameters, written out field by field: \<open>sampleParameters v\<close> are the
  parameters of \<open>sampleDefinition n v\<close>.
\<close>

definition sampleParameters :: "string \<Rightarrow> nat ChaincodeParameters" where
  "sampleParameters v =
     \<lparr>EndorsementInfo = \<lparr>Version = v, EndorsementPlugin = ''builtin'', InitRequired = True\<rparr>,
      ValidationInfo = \<lparr>ValidationPlugin = ''builtin'', ValidationParameter = [1, 2]\<rparr>,
      Collections = Some 7\<rparr>"

text \<open>
  Sample states: a public state that holds one committed definition of \<open>mycc\<close>, a public
  state that also holds a namespace of another type, an org state that holds the approval
  of one sequence of \<open>mycc\<close>, and an org state that holds an approval of sequence 1
  together with a package source.
\<close>

definition samplePublic :: "int64 \<Rightarrow> string \<Rightarrow> nat kvstate" where
  "samplePublic n v = [((''namespaces'', ''mycc''), DefinitionStruct (sampleDefinition n v))]"

definition sampleMixedPublic :: "nat kvstate" where
  "sampleMixedPublic =
     [((''namespaces'', ''mycc''), DefinitionStruct (sampleDefinition 1 ''1.0'')),
      ((''namespaces'', ''other''), ParametersStruct (sampleParameters ''1.0''))]"

definition sampleOrg :: "int64 \<Rightarrow> string \<Rightarrow> nat kvstate" where
  "sampleOrg n v =
     [((''namespaces'', privateName ''mycc'' n), ParametersStruct (sampleParameters v))]"

definition sampleOrgWithSource :: "nat kvstate" where
  "sampleOrgWithSource =
     [((''namespaces'', ''mycc#1''), ParametersStruct (sampleParameters ''0.9'')),
      ((''chaincode-sources'', ''mycc#1''), LocalPackageStruct \<lparr>Hash = [4, 2]\<rparr>)]"

section \<open>Properties\<close>

subsection \<open>Auxiliary facts\<close>

lemmas sample_defs =
  sampleFunctions_def kvSerializer_def kvDeserializeFieldAsInt64_def kvDeserialize_def
  kvIsSerialized_def kvPut_def sampleDefinition_def samplePublic_def NamespacesName_def
  ChaincodeSourcesName_def

lemma namespaces_not_sources: "NamespacesName \<noteq> ChaincodeSourcesName"
  by (simp add: NamespacesName_def ChaincodeSourcesName_def)

lemma Equal_None_iff: "Equal p q = None \<longleftrightarrow> sameParameters p q"
  by (simp add: Equal_def sameParameters_def)

lemma privateName_mycc_1: "privateName ''mycc'' 1 = ''mycc#1''"
  by code_simp

lemma privateName_mycc_2: "privateName ''mycc'' 2 = ''mycc#2''"
  by code_simp

lemma privateName_mycc_12: "privateName ''mycc'' 12 = ''mycc#12''"
  by code_simp

lemma privateName_negative: "privateName ''mycc'' (- 305) = ''mycc#-305''"
  by code_simp

text \<open>The parameters of a definition are its three fields other than the sequence.\<close>

lemma Parameters_fields:
  "Parameters cd =
     \<lparr>EndorsementInfo = EndorsementInfo cd,
      ValidationInfo = ValidationInfo cd,
      Collections = Collections cd\<rparr>"
  by (simp add: Parameters_def)

lemma Parameters_sample: "Parameters (sampleDefinition n v) = sampleParameters v"
  by (simp add: Parameters_def sampleDefinition_def sampleParameters_def)

text \<open>Adding one to a sequence below the largest \<^verbatim>\<open>int64\<close> does not wrap.\<close>

lemma sint_succ_no_wrap:
  fixes c :: int64
  assumes "sint c < 2 ^ 63 - 1"
  shows "sint (c + 1) = sint c + 1"
proof -
  have lo: "- (2 ^ 63) \<le> sint c" using sint_ge [of c] by simp
  have "sint (c + 1) = signed_take_bit 63 (sint c + 1)"
    by (simp add: sint_word_ariths)
  also have "\<dots> = sint c + 1"
    using assms lo by (intro signed_take_bit_int_eq_self) auto
  finally show ?thesis .
qed

lemma sless_next_of_int_less:
  fixes c r :: int64
  assumes "sint c + 1 < sint r"
  shows "c + 1 <s r"
proof -
  have "sint r < 2 ^ 63" using sint_lt [of r] by simp
  with assms have "sint c < 2 ^ 63 - 1" by linarith
  then have "sint (c + 1) = sint c + 1" by (rule sint_succ_no_wrap)
  with assms show ?thesis by (simp add: word_sless_alt)
qed

lemma not_sless_self_succ:
  fixes c :: int64
  assumes "c \<noteq> 9223372036854775807"
  shows "\<not> c + 1 <s c"
proof -
  have "sint c \<noteq> 9223372036854775807"
  proof
    assume "sint c = 9223372036854775807"
    then have "sint c = sint (9223372036854775807 :: int64)" by simp
    then have "c = 9223372036854775807" by (rule signed_word_eqI)
    with assms show False by simp
  qed
  moreover have "sint c < 2 ^ 63" using sint_lt [of c] by simp
  ultimately have "sint c < 2 ^ 63 - 1" by simp
  then have "sint (c + 1) = sint c + 1" by (rule sint_succ_no_wrap)
  then show ?thesis by (simp add: word_sless_alt)
qed

text \<open>The sample store keeps the contract of a write.\<close>

lemma map_of_filter_other:
  "map_of (filter (\<lambda>e. fst e \<noteq> k) s) k' = (if k' = k then None else map_of s k')"
  by (induction s) auto

lemma kvEntry_kvPut:
  "kvEntry (kvPut (ns, k) r s) ns' k' = (if (ns', k') = (ns, k) then Some r else kvEntry s ns' k')"
  by (simp add: kvEntry_def kvPut_def map_of_filter_other)

lemma kv_writesEntry: "writesEntry kvSerializer kvEntry"
  by (simp add: writesEntry_def kvSerializer_def kvEntry_kvPut)

text \<open>The agreement loop computes one entry for each org state, in order.\<close>

lemma length_agreementLoop: "length (agreementLoop ser pn cd orgStates) = length orgStates"
  by (induction orgStates) (auto split: prod.splits)

lemma nth_agreementLoop:
  "i < length orgStates \<Longrightarrow>
   agreementLoop ser pn cd orgStates ! i
     = (IsSerialized ser NamespacesName pn (ParametersStruct (Parameters cd)) (orgStates ! i)
          = (True, None))"
proof (induction orgStates arbitrary: i)
  case Nil
  then show ?case by simp
next
  case (Cons a orgStates)
  then show ?case by (cases i) (auto split: prod.splits)
qed

text \<open>
  An approval that returns no error has made one write of the parameters and, with a
  package hash, one write of the package record after it; each write returned no error.
\<close>

lemma approve_accepted_state:
  assumes "ApproveChaincodeDefinitionForOrg ef name cd localPackageHash publicState orgState
             = (None, orgState')"
  shows "case localPackageHash of
           None \<Rightarrow>
             Serialize (Serializer (Resources ef)) NamespacesName (privateName name (Sequence cd))
               (ParametersStruct (Parameters cd)) orgState = (orgState', None)
         | Some hash \<Rightarrow>
             (\<exists>mid. Serialize (Serializer (Resources ef)) NamespacesName
                      (privateName name (Sequence cd)) (ParametersStruct (Parameters cd))
                      orgState = (mid, None)
                  \<and> Serialize (Serializer (Resources ef)) ChaincodeSourcesName
                      (privateName name (Sequence cd)) (LocalPackageStruct \<lparr>Hash = hash\<rparr>) mid
                      = (orgState', None))"
  using assms
  by (auto simp: ApproveChaincodeDefinitionForOrg_def Let_def
           split: sum.splits if_splits prod.splits option.splits)

text \<open>Two sample approvals over an org state that holds an older approval and a source.\<close>

lemma approve_sample_no_hash:
  "ApproveChaincodeDefinitionForOrg sampleFunctions ''mycc'' (sampleDefinition 1 ''1.0'')
     None [] sampleOrgWithSource
   = (None,
      [((''namespaces'', ''mycc#1''), ParametersStruct (sampleParameters ''1.0'')),
       ((''chaincode-sources'', ''mycc#1''), LocalPackageStruct \<lparr>Hash = [4, 2]\<rparr>)])"
  by (simp add: ApproveChaincodeDefinitionForOrg_def sample_defs sampleOrgWithSource_def
        sampleParameters_def Parameters_def privateName_mycc_1 word_sless_alt Let_def)

lemma approve_sample_hash:
  "ApproveChaincodeDefinitionForOrg sampleFunctions ''mycc'' (sampleDefinition 12 ''3.0'')
     (Some [9]) (samplePublic 11 ''1.0'') sampleOrgWithSource
   = (None,
      [((''chaincode-sources'', ''mycc#12''), LocalPackageStruct \<lparr>Hash = [9]\<rparr>),
       ((''namespaces'', ''mycc#12''), ParametersStruct (sampleParameters ''3.0'')),
       ((''namespaces'', ''mycc#1''), ParametersStruct (sampleParameters ''0.9'')),
       ((''chaincode-sources'', ''mycc#1''), LocalPackageStruct \<lparr>Hash = [4, 2]\<rparr>)])"
  by (simp add: ApproveChaincodeDefinitionForOrg_def sample_defs sampleOrgWithSource_def
        sampleParameters_def Parameters_def privateName_mycc_12 word_sless_alt Let_def)

text \<open>The loop of the namespace query: for each key the entry visited last decides.\<close>

lemma namespaceLoop_lookup:
  "namespaceLoop result metadatas key =
     (case map_of (rev metadatas) key of
        None \<Rightarrow> result key
      | Some val \<Rightarrow>
          Some (if Datatype val = ChaincodeDefinitionType then FriendlyChaincodeDefinitionType
                else Datatype val))"
proof (induction metadatas arbitrary: result)
  case Nil
  then show ?case by simp
next
  case (Cons e metadatas)
  obtain k v where e: "e = (k, v)" by (cases e)
  show ?case
    unfolding e by (simp add: Cons.IH map_add_def split: option.splits)
qed

lemma map_of_rev_distinct:
  assumes "distinct (map fst xs)" and "(k, v) \<in> set xs"
  shows "map_of (rev xs) k = Some v"
proof -
  from assms(1) have "distinct (map fst (rev xs))" by (simp add: rev_map [symmetric])
  moreover from assms(2) have "(k, v) \<in> set (rev xs)" by simp
  ultimately show ?thesis by (rule map_of_is_SomeI)
qed

subsection \<open>Commit: the sequence check\<close>

text \<open>
  Claim C1. A commit whose sequence is not the current public sequence of the name plus
  one returns an error and leaves the public state as it was. The current sequence is what
  \<open>DeserializeFieldAsInt64\<close> reads from the public state, and the sum is the \<^verbatim>\<open>int64\<close>
  sum the code computes. The hypothesis also covers a sequence that cannot be read: then
  too the call returns an error and writes nothing. The result slice is nil.
\<close>

theorem commit_rejects_wrong_sequence:
  assumes "case DeserializeFieldAsInt64 (Serializer (Resources ef)) NamespacesName name
                  ''Sequence'' publicState of
             Inl err \<Rightarrow> True
           | Inr currentSequence \<Rightarrow> Sequence cd \<noteq> currentSequence + 1"
  shows "\<exists>err. CommitChaincodeDefinition ef name cd publicState orgStates
                 = ((None, Some err), publicState)"
  using assms
  by (auto simp: CommitChaincodeDefinition_def split: sum.splits)

text \<open>
  An instance: \<open>mycc\<close> is undefined, so its current sequence is 0, and a commit of
  sequence 2 is refused.
\<close>

theorem commit_rejects_wrong_sequence_witness:
  "DeserializeFieldAsInt64 (Serializer (Resources sampleFunctions)) NamespacesName ''mycc''
     ''Sequence'' [] = Inr 0
   \<and> Sequence (sampleDefinition 2 ''1.0'') \<noteq> 0 + 1
   \<and> (\<exists>err. CommitChaincodeDefinition sampleFunctions ''mycc'' (sampleDefinition 2 ''1.0'')
               [] [[]] = ((None, Some err), []))
   \<and> CommitChaincodeDefinition sampleFunctions ''mycc'' (sampleDefinition 2 ''1.0'') [] [[]]
       = ((None, Some (NewDefinitionMustBeSequence 2 1)), [])"
proof -
  have h1: "DeserializeFieldAsInt64 (Serializer (Resources sampleFunctions)) NamespacesName
              ''mycc'' ''Sequence'' [] = Inr 0"
    by (simp add: sample_defs)
  have h2: "Sequence (sampleDefinition 2 ''1.0'') \<noteq> 0 + 1"
    by (simp add: sampleDefinition_def)
  have h: "case DeserializeFieldAsInt64 (Serializer (Resources sampleFunctions)) NamespacesName
                  ''mycc'' ''Sequence'' [] of
             Inl err \<Rightarrow> True
           | Inr currentSequence \<Rightarrow> Sequence (sampleDefinition 2 ''1.0'') \<noteq> currentSequence + 1"
    using h2 by (simp add: h1)
  have c: "\<exists>err. CommitChaincodeDefinition sampleFunctions ''mycc'' (sampleDefinition 2 ''1.0'')
                   [] [[]] = ((None, Some err), [])"
    by (rule commit_rejects_wrong_sequence [OF h])
  have v: "CommitChaincodeDefinition sampleFunctions ''mycc'' (sampleDefinition 2 ''1.0'') [] [[]]
             = ((None, Some (NewDefinitionMustBeSequence 2 1)), [])"
    by (simp add: CommitChaincodeDefinition_def sample_defs)
  from h1 h2 c v show ?thesis by blast
qed

subsection \<open>Approve: the sequence checks\<close>

text \<open>
  Claim C2. With requested sequence \<open>R\<close> and current public sequence \<open>C\<close>, an approval
  returns an error and leaves the org state as it was when \<open>R\<close> and \<open>C\<close> are both 0,
  when \<open>R < C\<close>, and when \<open>R > C + 1\<close>. The last case is stated twice: with the \<^verbatim>\<open>int64\<close>
  sum of the code, and with the sum of the integers the two words stand for.
\<close>

theorem approve_rejects_out_of_order_sequence:
  assumes "DeserializeFieldAsInt64 (Serializer (Resources ef)) NamespacesName name ''Sequence''
             publicState = Inr currentSequence"
    and "(Sequence cd = 0 \<and> currentSequence = 0)
         \<or> Sequence cd <s currentSequence
         \<or> currentSequence + 1 <s Sequence cd
         \<or> sint currentSequence + 1 < sint (Sequence cd)"
  shows "\<exists>err. ApproveChaincodeDefinitionForOrg ef name cd localPackageHash publicState orgState
                 = (Some err, orgState)"
proof -
  from assms(2) have "(currentSequence = Sequence cd \<and> Sequence cd = 0)
         \<or> Sequence cd <s currentSequence
         \<or> currentSequence + 1 <s Sequence cd"
    by (auto dest: sless_next_of_int_less)
  with assms(1) show ?thesis
    by (auto simp: ApproveChaincodeDefinitionForOrg_def Let_def)
qed

text \<open>An instance: \<open>mycc\<close> is committed at sequence 2, and sequence 1 is approved.\<close>

theorem approve_rejects_out_of_order_sequence_witness:
  "DeserializeFieldAsInt64 (Serializer (Resources sampleFunctions)) NamespacesName ''mycc''
     ''Sequence'' (samplePublic 2 ''1.0'') = Inr 2
   \<and> Sequence (sampleDefinition 1 ''1.0'') <s 2
   \<and> (\<exists>err. ApproveChaincodeDefinitionForOrg sampleFunctions ''mycc''
               (sampleDefinition 1 ''1.0'') None (samplePublic 2 ''1.0'') [] = (Some err, []))"
proof -
  have h1: "DeserializeFieldAsInt64 (Serializer (Resources sampleFunctions)) NamespacesName
              ''mycc'' ''Sequence'' (samplePublic 2 ''1.0'') = Inr 2"
    by (simp add: sample_defs)
  have h2: "Sequence (sampleDefinition 1 ''1.0'') <s 2"
    by (simp add: sampleDefinition_def word_sless_alt)
  have "\<exists>err. ApproveChaincodeDefinitionForOrg sampleFunctions ''mycc''
               (sampleDefinition 1 ''1.0'') None (samplePublic 2 ''1.0'') [] = (Some err, [])"
    by (rule approve_rejects_out_of_order_sequence [OF h1]) (simp add: h2)
  with h1 h2 show ?thesis by blast
qed

subsection \<open>Approve: the committed sequence\<close>

text \<open>
  The claim that an approval of the committed sequence succeeds exactly when the
  parameters agree does not hold as it stands: after the comparison the approval writes,
  and a write that fails makes the call fail. Here \<open>mycc\<close> is committed at sequence 1, the
  same definition is approved, and the serializer refuses the write.
\<close>

theorem approve_current_sequence_counterexample:
  "DeserializeFieldAsInt64 (Serializer (Resources (withSerialize failingWrites sampleFunctions)))
     NamespacesName ''mycc'' ''Sequence'' (samplePublic 1 ''1.0'') = Inr 1
   \<and> Sequence (sampleDefinition 1 ''1.0'') = 1
   \<and> QueryChaincodeDefinition (withSerialize failingWrites sampleFunctions) ''mycc''
       (samplePublic 1 ''1.0'') = (Some (sampleDefinition 1 ''1.0''), None)
   \<and> sameParameters (Parameters (sampleDefinition 1 ''1.0''))
       (Parameters (sampleDefinition 1 ''1.0''))
   \<and> ApproveChaincodeDefinitionForOrg (withSerialize failingWrites sampleFunctions) ''mycc''
       (sampleDefinition 1 ''1.0'') None (samplePublic 1 ''1.0'') []
       = (Some (CouldNotSerializeChaincodeParameters (ExternalError ''write failed'')), [])"
  by (simp add: ApproveChaincodeDefinitionForOrg_def QueryChaincodeDefinition_def sample_defs
        withSerialize_def failingWrites_def sameParameters_def Equal_def Parameters_def
        word_sless_alt)

text \<open>
  Claim C3, amended. The requested sequence is the current public sequence, not 0 and
  below the largest \<^verbatim>\<open>int64\<close>. The approval returns no error exactly when the committed
  definition is read from the public state (its metadata is found and it deserializes),
  the proposed parameters agree with the committed ones in the version, the endorsement
  plugin, the validation plugin, the validation parameter and the collections, and each
  write the approval then makes returns no error; otherwise it returns an error. When the
  committed definition cannot be read or the parameters differ, the error is returned
  before any write and the org state is as it was.
\<close>

theorem approve_current_sequence:
  assumes "DeserializeFieldAsInt64 (Serializer (Resources ef)) NamespacesName name ''Sequence''
             publicState = Inr currentSequence"
    and "Sequence cd = currentSequence"
    and "currentSequence \<noteq> 0"
    and "currentSequence \<noteq> 9223372036854775807"
  shows "(fst (ApproveChaincodeDefinitionForOrg ef name cd localPackageHash publicState orgState)
            = None
          \<longleftrightarrow>
            (\<exists>metadata definedChaincode.
               DeserializeMetadata (Serializer (Resources ef)) NamespacesName name publicState
                 = Inr (Some metadata)
               \<and> Deserialize (Serializer (Resources ef)) NamespacesName name metadata publicState
                   = Inr definedChaincode
               \<and> sameParameters (Parameters definedChaincode) (Parameters cd))
            \<and> snd (Serialize (Serializer (Resources ef)) NamespacesName
                     (privateName name (Sequence cd)) (ParametersStruct (Parameters cd))
                     orgState) = None
            \<and> (case localPackageHash of
                 None \<Rightarrow> True
               | Some hash \<Rightarrow>
                   snd (Serialize (Serializer (Resources ef)) ChaincodeSourcesName
                          (privateName name (Sequence cd)) (LocalPackageStruct \<lparr>Hash = hash\<rparr>)
                          (fst (Serialize (Serializer (Resources ef)) NamespacesName
                                  (privateName name (Sequence cd))
                                  (ParametersStruct (Parameters cd)) orgState))) = None))
       \<and> (\<not> (\<exists>metadata definedChaincode.
               DeserializeMetadata (Serializer (Resources ef)) NamespacesName name publicState
                 = Inr (Some metadata)
               \<and> Deserialize (Serializer (Resources ef)) NamespacesName name metadata publicState
                   = Inr definedChaincode
               \<and> sameParameters (Parameters definedChaincode) (Parameters cd))
          \<longrightarrow> (\<exists>err. ApproveChaincodeDefinitionForOrg ef name cd localPackageHash publicState
                      orgState = (Some err, orgState)))"
proof -
  have a: "\<not> Sequence cd <s currentSequence"
    using assms(2) by simp
  have b: "\<not> currentSequence + 1 <s Sequence cd"
    using assms(2) not_sless_self_succ [OF assms(4)] by simp
  show ?thesis
    using assms(1,2,3) a b
    by (auto simp: ApproveChaincodeDefinitionForOrg_def Let_def Equal_None_iff [symmetric]
             split: prod.splits option.splits sum.splits)
qed

text \<open>
  Two instances over the sample store, whose writes succeed: \<open>mycc\<close> is committed at
  sequence 1 with version 1.0; the approval of the same parameters succeeds, the approval
  of version 2.0 at sequence 1 is refused and leaves the org state as it was.
\<close>

theorem approve_current_sequence_witness:
  "DeserializeFieldAsInt64 (Serializer (Resources sampleFunctions)) NamespacesName ''mycc''
     ''Sequence'' (samplePublic 1 ''1.0'') = Inr 1
   \<and> Sequence (sampleDefinition 1 ''1.0'') = 1
   \<and> (1 :: int64) \<noteq> 0
   \<and> (1 :: int64) \<noteq> 9223372036854775807
   \<and> DeserializeMetadata (Serializer (Resources sampleFunctions)) NamespacesName ''mycc''
       (samplePublic 1 ''1.0'')
       = Inr (Some (metadataOf (DefinitionStruct (sampleDefinition 1 ''1.0''))))
   \<and> Deserialize (Serializer (Resources sampleFunctions)) NamespacesName ''mycc''
       (metadataOf (DefinitionStruct (sampleDefinition 1 ''1.0''))) (samplePublic 1 ''1.0'')
       = Inr (sampleDefinition 1 ''1.0'')
   \<and> sameParameters (Parameters (sampleDefinition 1 ''1.0''))
       (Parameters (sampleDefinition 1 ''1.0''))
   \<and> fst (ApproveChaincodeDefinitionForOrg sampleFunctions ''mycc'' (sampleDefinition 1 ''1.0'')
            None (samplePublic 1 ''1.0'') []) = None
   \<and> \<not> sameParameters (Parameters (sampleDefinition 1 ''1.0''))
         (Parameters (sampleDefinition 1 ''2.0''))
   \<and> (\<exists>err. ApproveChaincodeDefinitionForOrg sampleFunctions ''mycc''
               (sampleDefinition 1 ''2.0'') None (samplePublic 1 ''1.0'') sampleOrgWithSource
               = (Some err, sampleOrgWithSource))"
proof -
  let ?md = "metadataOf (DefinitionStruct (sampleDefinition 1 ''1.0''))"
  have h1: "DeserializeFieldAsInt64 (Serializer (Resources sampleFunctions)) NamespacesName
              ''mycc'' ''Sequence'' (samplePublic 1 ''1.0'') = Inr 1"
    by (simp add: sample_defs)
  have h2: "Sequence (sampleDefinition 1 ''1.0'') = 1"
    and h2': "Sequence (sampleDefinition 1 ''2.0'') = 1"
    by (simp_all add: sampleDefinition_def)
  have h3: "(1 :: int64) \<noteq> 0" and h4: "(1 :: int64) \<noteq> 9223372036854775807"
    by simp_all
  have h5: "DeserializeMetadata (Serializer (Resources sampleFunctions)) NamespacesName ''mycc''
              (samplePublic 1 ''1.0'') = Inr (Some ?md)"
    by (simp add: sample_defs)
  have h6: "Deserialize (Serializer (Resources sampleFunctions)) NamespacesName ''mycc'' ?md
              (samplePublic 1 ''1.0'') = Inr (sampleDefinition 1 ''1.0'')"
    by (simp add: sample_defs)
  have same: "sameParameters (Parameters (sampleDefinition 1 ''1.0''))
                (Parameters (sampleDefinition 1 ''1.0''))"
    by (simp add: sameParameters_def)
  have differ: "\<not> sameParameters (Parameters (sampleDefinition 1 ''1.0''))
                    (Parameters (sampleDefinition 1 ''2.0''))"
    by (simp add: sameParameters_def Parameters_def sampleDefinition_def)
  have w: "snd (Serialize (Serializer (Resources sampleFunctions)) NamespacesName
                  (privateName ''mycc'' (Sequence (sampleDefinition 1 ''1.0'')))
                  (ParametersStruct (Parameters (sampleDefinition 1 ''1.0''))) []) = None"
    by (simp add: sampleFunctions_def kvSerializer_def)
  have agree: "\<exists>metadata definedChaincode.
      DeserializeMetadata (Serializer (Resources sampleFunctions)) NamespacesName ''mycc''
        (samplePublic 1 ''1.0'') = Inr (Some metadata)
      \<and> Deserialize (Serializer (Resources sampleFunctions)) NamespacesName ''mycc'' metadata
          (samplePublic 1 ''1.0'') = Inr definedChaincode
      \<and> sameParameters (Parameters definedChaincode) (Parameters (sampleDefinition 1 ''1.0''))"
    using h5 h6 same by blast
  have disagree: "\<not> (\<exists>metadata definedChaincode.
      DeserializeMetadata (Serializer (Resources sampleFunctions)) NamespacesName ''mycc''
        (samplePublic 1 ''1.0'') = Inr (Some metadata)
      \<and> Deserialize (Serializer (Resources sampleFunctions)) NamespacesName ''mycc'' metadata
          (samplePublic 1 ''1.0'') = Inr definedChaincode
      \<and> sameParameters (Parameters definedChaincode) (Parameters (sampleDefinition 1 ''2.0'')))"
    using h6 differ by (auto simp: h5)
  from approve_current_sequence [OF h1 h2 h3 h4, of None "[]", THEN conjunct1] agree w
  have ok: "fst (ApproveChaincodeDefinitionForOrg sampleFunctions ''mycc''
                   (sampleDefinition 1 ''1.0'') None (samplePublic 1 ''1.0'') []) = None"
    by simp
  from approve_current_sequence [OF h1 h2' h3 h4, of None sampleOrgWithSource,
      THEN conjunct2] disagree
  have no: "\<exists>err. ApproveChaincodeDefinitionForOrg sampleFunctions ''mycc''
               (sampleDefinition 1 ''2.0'') None (samplePublic 1 ''1.0'') sampleOrgWithSource
               = (Some err, sampleOrgWithSource)"
    by blast
  from h1 h2 h3 h4 h5 h6 same ok differ no show ?thesis
    by (intro conjI)
qed

subsection \<open>Commit: the agreement\<close>

text \<open>
  The claim that every commit past the sequence check returns an agreement slice as long
  as the list of org states does not hold as it stands: when the public write fails, the
  commit returns a nil slice and the error. Here \<open>mycc\<close> is undefined, sequence 1 is
  committed with one org state, and the serializer refuses the write.
\<close>

theorem commit_agreement_counterexample:
  "DeserializeFieldAsInt64 (Serializer (Resources (withSerialize failingWrites sampleFunctions)))
     NamespacesName ''mycc'' ''Sequence'' [] = Inr 0
   \<and> Sequence (sampleDefinition 1 ''1.0'') = 0 + 1
   \<and> length [[] :: nat kvstate] = 1
   \<and> CommitChaincodeDefinition (withSerialize failingWrites sampleFunctions) ''mycc''
       (sampleDefinition 1 ''1.0'') [] [[]]
       = ((None, Some (CouldNotSerializeChaincodeDefinition (ExternalError ''write failed''))), [])"
  by (simp add: CommitChaincodeDefinition_def sample_defs withSerialize_def failingWrites_def)

text \<open>
  Claim C4, amended. A commit that passes the sequence check and whose public write
  returns no error returns no error and an agreement slice with one entry for each org
  state, in order; entry \<open>i\<close> is true exactly when \<open>IsSerialized\<close>, asked for the
  parameters of the definition under the private name in org state \<open>i\<close>, answers a match
  and no error. So an org state whose read fails counts as disagreement and its error is
  not returned. When the public write fails, the commit returns a nil slice and the error
  of the write.
\<close>

theorem commit_agreement:
  assumes "DeserializeFieldAsInt64 (Serializer (Resources ef)) NamespacesName name ''Sequence''
             publicState = Inr currentSequence"
    and "Sequence cd = currentSequence + 1"
  shows "(snd (Serialize (Serializer (Resources ef)) NamespacesName name
                 (DefinitionStruct cd) publicState) = None \<longrightarrow>
          (\<exists>agreement.
             fst (CommitChaincodeDefinition ef name cd publicState orgStates)
               = (Some agreement, None) \<and>
             length agreement = length orgStates \<and>
             (\<forall>i < length orgStates.
                agreement ! i
                  = (IsSerialized (Serializer (Resources ef)) NamespacesName
                       (privateName name (Sequence cd)) (ParametersStruct (Parameters cd))
                       (orgStates ! i) = (True, None)))))
       \<and> (\<forall>err. snd (Serialize (Serializer (Resources ef)) NamespacesName name
                 (DefinitionStruct cd) publicState) = Some err \<longrightarrow>
            fst (CommitChaincodeDefinition ef name cd publicState orgStates)
               = (None, Some (CouldNotSerializeChaincodeDefinition err)))"
  using assms
  by (auto simp: CommitChaincodeDefinition_def Let_def length_agreementLoop nth_agreementLoop
           split: prod.splits option.splits)

text \<open>
  An instance: \<open>mycc\<close> is committed at sequence 1 and sequence 2 with version 2.0 is
  committed. The first org approved it, the second approved nothing (its read fails), the
  third approved version 2.1.
\<close>

theorem commit_agreement_witness:
  "DeserializeFieldAsInt64 (Serializer (Resources sampleFunctions)) NamespacesName ''mycc''
     ''Sequence'' (samplePublic 1 ''1.0'') = Inr 1
   \<and> Sequence (sampleDefinition 2 ''2.0'') = 1 + 1
   \<and> snd (Serialize (Serializer (Resources sampleFunctions)) NamespacesName ''mycc''
            (DefinitionStruct (sampleDefinition 2 ''2.0'')) (samplePublic 1 ''1.0'')) = None
   \<and> (\<exists>agreement.
         fst (CommitChaincodeDefinition sampleFunctions ''mycc'' (sampleDefinition 2 ''2.0'')
                (samplePublic 1 ''1.0'') [sampleOrg 2 ''2.0'', [], sampleOrg 2 ''2.1''])
           = (Some agreement, None) \<and>
         length agreement = length [sampleOrg 2 ''2.0'', [], sampleOrg 2 ''2.1''] \<and>
         (\<forall>i < length [sampleOrg 2 ''2.0'', [], sampleOrg 2 ''2.1''].
            agreement ! i
              = (IsSerialized (Serializer (Resources sampleFunctions)) NamespacesName
                   (privateName ''mycc'' (Sequence (sampleDefinition 2 ''2.0'')))
                   (ParametersStruct (Parameters (sampleDefinition 2 ''2.0'')))
                   ([sampleOrg 2 ''2.0'', [], sampleOrg 2 ''2.1''] ! i) = (True, None))))
   \<and> IsSerialized (Serializer (Resources sampleFunctions)) NamespacesName ''mycc#2''
       (ParametersStruct (Parameters (sampleDefinition 2 ''2.0''))) []
       = (False, Some (ExternalError ''not found''))
   \<and> fst (CommitChaincodeDefinition sampleFunctions ''mycc'' (sampleDefinition 2 ''2.0'')
            (samplePublic 1 ''1.0'') [sampleOrg 2 ''2.0'', [], sampleOrg 2 ''2.1''])
       = (Some [True, False, False], None)"
proof -
  have h1: "DeserializeFieldAsInt64 (Serializer (Resources sampleFunctions)) NamespacesName
              ''mycc'' ''Sequence'' (samplePublic 1 ''1.0'') = Inr 1"
    by (simp add: sample_defs)
  have h2: "Sequence (sampleDefinition 2 ''2.0'') = 1 + 1"
    by (simp add: sampleDefinition_def)
  have h3: "snd (Serialize (Serializer (Resources sampleFunctions)) NamespacesName ''mycc''
            (DefinitionStruct (sampleDefinition 2 ''2.0'')) (samplePublic 1 ''1.0'')) = None"
    by (simp add: sampleFunctions_def kvSerializer_def)
  note c = commit_agreement [OF h1 h2, THEN conjunct1, rule_format, OF h3]
  have r: "IsSerialized (Serializer (Resources sampleFunctions)) NamespacesName ''mycc#2''
       (ParametersStruct (Parameters (sampleDefinition 2 ''2.0''))) []
       = (False, Some (ExternalError ''not found''))"
    by (simp add: sample_defs)
  have v: "fst (CommitChaincodeDefinition sampleFunctions ''mycc'' (sampleDefinition 2 ''2.0'')
            (samplePublic 1 ''1.0'') [sampleOrg 2 ''2.0'', [], sampleOrg 2 ''2.1''])
       = (Some [True, False, False], None)"
    by (simp add: CommitChaincodeDefinition_def sample_defs sampleOrg_def privateName_mycc_2
          Parameters_def sampleParameters_def)
  from h1 h2 h3 c [of "[sampleOrg 2 ''2.0'', [], sampleOrg 2 ''2.1'']"] r v show ?thesis
    by (intro conjI)
qed

subsection \<open>Commit: the public write\<close>

text \<open>
  Claim C5. A commit that passes the sequence check hands the whole proposed definition to
  \<open>Serialize\<close>, under the public namespace and the chaincode name: the public state after
  the call is the state that this write leaves, whatever the org states are and whatever
  they answer. The error of the call is the error of this write, wrapped, and nil when the
  write returns none. Where the serializer keeps the contract of a write and the call
  succeeds, the entry of the name in the public namespace is the proposed definition.
\<close>

theorem commit_writes_definition:
  assumes "DeserializeFieldAsInt64 (Serializer (Resources ef)) NamespacesName name ''Sequence''
             publicState = Inr currentSequence"
    and "Sequence cd = currentSequence + 1"
  shows "snd (CommitChaincodeDefinition ef name cd publicState orgStates)
           = fst (Serialize (Serializer (Resources ef)) NamespacesName name
                    (DefinitionStruct cd) publicState)
         \<and> snd (fst (CommitChaincodeDefinition ef name cd publicState orgStates))
           = map_option CouldNotSerializeChaincodeDefinition
               (snd (Serialize (Serializer (Resources ef)) NamespacesName name
                       (DefinitionStruct cd) publicState))
         \<and> (writesEntry (Serializer (Resources ef)) entry \<longrightarrow>
              snd (fst (CommitChaincodeDefinition ef name cd publicState orgStates)) = None \<longrightarrow>
              entry (snd (CommitChaincodeDefinition ef name cd publicState orgStates))
                NamespacesName name = Some (DefinitionStruct cd))"
  using assms
  by (auto simp: CommitChaincodeDefinition_def Let_def writesEntry_def
           split: prod.splits option.splits)

text \<open>
  An instance: \<open>mycc\<close> is committed at sequence 1, no org state is supplied, and the
  commit of sequence 2 replaces the public definition.
\<close>

theorem commit_writes_definition_witness:
  "DeserializeFieldAsInt64 (Serializer (Resources sampleFunctions)) NamespacesName ''mycc''
     ''Sequence'' (samplePublic 1 ''1.0'') = Inr 1
   \<and> Sequence (sampleDefinition 2 ''2.0'') = 1 + 1
   \<and> writesEntry (Serializer (Resources sampleFunctions)) kvEntry
   \<and> CommitChaincodeDefinition sampleFunctions ''mycc'' (sampleDefinition 2 ''2.0'')
       (samplePublic 1 ''1.0'') [] = ((Some [], None), samplePublic 2 ''2.0'')
   \<and> kvEntry (snd (CommitChaincodeDefinition sampleFunctions ''mycc''
                     (sampleDefinition 2 ''2.0'') (samplePublic 1 ''1.0'') []))
       NamespacesName ''mycc'' = Some (DefinitionStruct (sampleDefinition 2 ''2.0''))"
proof -
  have h1: "DeserializeFieldAsInt64 (Serializer (Resources sampleFunctions)) NamespacesName
              ''mycc'' ''Sequence'' (samplePublic 1 ''1.0'') = Inr 1"
    by (simp add: sample_defs)
  have h2: "Sequence (sampleDefinition 2 ''2.0'') = 1 + 1"
    by (simp add: sampleDefinition_def)
  have h3: "writesEntry (Serializer (Resources sampleFunctions)) kvEntry"
    by (simp add: sampleFunctions_def kv_writesEntry)
  have v: "CommitChaincodeDefinition sampleFunctions ''mycc'' (sampleDefinition 2 ''2.0'')
       (samplePublic 1 ''1.0'') [] = ((Some [], None), samplePublic 2 ''2.0'')"
    by (simp add: CommitChaincodeDefinition_def sample_defs)
  have ok: "snd (fst (CommitChaincodeDefinition sampleFunctions ''mycc''
                        (sampleDefinition 2 ''2.0'') (samplePublic 1 ''1.0'') [])) = None"
    by (simp add: v)
  from commit_writes_definition [OF h1 h2, of "[]" kvEntry] h3 ok
  have "kvEntry (snd (CommitChaincodeDefinition sampleFunctions ''mycc''
                        (sampleDefinition 2 ''2.0'') (samplePublic 1 ''1.0'') []))
          NamespacesName ''mycc'' = Some (DefinitionStruct (sampleDefinition 2 ''2.0''))"
    by blast
  with h1 h2 h3 v show ?thesis by blast
qed

subsection \<open>Approve: the writes\<close>

text \<open>
  Claim C6. An approval that returns no error has written the parameters of the proposed
  definition (its endorsement info, its validation info and its collections, and not its
  sequence) to the org state under the private name, which is the name, a hash sign and
  the requested sequence in decimal, whatever was stored there before. With a package hash
  it has also written the package record with that hash under the same key in the
  namespace of the chaincode sources; with a nil hash no write to that namespace is made
  and every entry of it is as before. No other entry of the org state changes. The first
  conjunct names the writes; the entries are read through the contract of a write.
\<close>

theorem approve_writes_entries:
  assumes "ApproveChaincodeDefinitionForOrg ef name cd localPackageHash publicState orgState
             = (None, orgState')"
    and "writesEntry (Serializer (Resources ef)) entry"
  shows "(case localPackageHash of
            None \<Rightarrow>
              Serialize (Serializer (Resources ef)) NamespacesName
                (name @ ''#'' @ format_int64 (Sequence cd))
                (ParametersStruct \<lparr>EndorsementInfo = EndorsementInfo cd,
                                   ValidationInfo = ValidationInfo cd,
                                   Collections = Collections cd\<rparr>) orgState
                = (orgState', None)
          | Some hash \<Rightarrow>
              (\<exists>mid. Serialize (Serializer (Resources ef)) NamespacesName
                       (name @ ''#'' @ format_int64 (Sequence cd))
                       (ParametersStruct \<lparr>EndorsementInfo = EndorsementInfo cd,
                                          ValidationInfo = ValidationInfo cd,
                                          Collections = Collections cd\<rparr>)
                       orgState = (mid, None)
                   \<and> Serialize (Serializer (Resources ef)) ChaincodeSourcesName
                       (name @ ''#'' @ format_int64 (Sequence cd))
                       (LocalPackageStruct \<lparr>Hash = hash\<rparr>) mid = (orgState', None)))
       \<and> entry orgState' NamespacesName (name @ ''#'' @ format_int64 (Sequence cd))
           = Some (ParametersStruct \<lparr>EndorsementInfo = EndorsementInfo cd,
                                     ValidationInfo = ValidationInfo cd,
                                     Collections = Collections cd\<rparr>)
       \<and> (case localPackageHash of
            None \<Rightarrow> (\<forall>k. entry orgState' ChaincodeSourcesName k
                            = entry orgState ChaincodeSourcesName k)
          | Some hash \<Rightarrow>
              entry orgState' ChaincodeSourcesName (name @ ''#'' @ format_int64 (Sequence cd))
                = Some (LocalPackageStruct \<lparr>Hash = hash\<rparr>))
       \<and> (\<forall>ns k. (ns, k) \<noteq> (NamespacesName, name @ ''#'' @ format_int64 (Sequence cd)) \<and>
                  (ns, k) \<noteq> (ChaincodeSourcesName, name @ ''#'' @ format_int64 (Sequence cd))
                  \<longrightarrow> entry orgState' ns k = entry orgState ns k)"
proof (cases localPackageHash)
  case None
  with approve_accepted_state [OF assms(1)]
  have w: "Serialize (Serializer (Resources ef)) NamespacesName (privateName name (Sequence cd))
             (ParametersStruct (Parameters cd)) orgState = (orgState', None)"
    by simp
  from assms(2) w have
    e1: "entry orgState' NamespacesName (privateName name (Sequence cd))
           = Some (ParametersStruct (Parameters cd))"
    and f1: "\<And>ns k. (ns, k) \<noteq> (NamespacesName, privateName name (Sequence cd))
               \<Longrightarrow> entry orgState' ns k = entry orgState ns k"
    unfolding writesEntry_def by blast+
  from w e1 f1 None namespaces_not_sources show ?thesis
    by (auto simp: Parameters_fields privateName_def)
next
  case (Some hash)
  with approve_accepted_state [OF assms(1)] obtain mid where
    w1: "Serialize (Serializer (Resources ef)) NamespacesName (privateName name (Sequence cd))
           (ParametersStruct (Parameters cd)) orgState = (mid, None)"
    and w2: "Serialize (Serializer (Resources ef)) ChaincodeSourcesName
               (privateName name (Sequence cd)) (LocalPackageStruct \<lparr>Hash = hash\<rparr>) mid
               = (orgState', None)"
    by auto
  from assms(2) w1 have
    e1: "entry mid NamespacesName (privateName name (Sequence cd))
           = Some (ParametersStruct (Parameters cd))"
    and f1: "\<And>ns k. (ns, k) \<noteq> (NamespacesName, privateName name (Sequence cd))
               \<Longrightarrow> entry mid ns k = entry orgState ns k"
    unfolding writesEntry_def by blast+
  from assms(2) w2 have
    e2: "entry orgState' ChaincodeSourcesName (privateName name (Sequence cd))
           = Some (LocalPackageStruct \<lparr>Hash = hash\<rparr>)"
    and f2: "\<And>ns k. (ns, k) \<noteq> (ChaincodeSourcesName, privateName name (Sequence cd))
               \<Longrightarrow> entry orgState' ns k = entry mid ns k"
    unfolding writesEntry_def by blast+
  have "entry orgState' NamespacesName (privateName name (Sequence cd))
          = Some (ParametersStruct (Parameters cd))"
    using e1 f2 [of NamespacesName "privateName name (Sequence cd)"] namespaces_not_sources
    by simp
  moreover have "\<forall>ns k. (ns, k) \<noteq> (NamespacesName, privateName name (Sequence cd)) \<and>
                  (ns, k) \<noteq> (ChaincodeSourcesName, privateName name (Sequence cd)) \<longrightarrow>
                  entry orgState' ns k = entry orgState ns k"
    using f1 f2 by simp
  ultimately show ?thesis using w1 w2 e2 Some
    by (simp add: Parameters_fields privateName_def)
qed

text \<open>
  Two instances over an org state that holds an approval of version 0.9 at sequence 1 and
  a package source with hash 4, 2 under \<open>mycc#1\<close>. With \<open>mycc\<close> undefined, an approval of
  version 1.0 at sequence 1 with a nil hash replaces the parameters under \<open>mycc#1\<close> and
  leaves the source. With \<open>mycc\<close> committed at sequence 11, an approval of version 3.0 at
  sequence 12 with hash 9 writes the parameters and the source under \<open>mycc#12\<close> and
  leaves both entries under \<open>mycc#1\<close>.
\<close>

theorem approve_writes_entries_witness:
  "writesEntry (Serializer (Resources sampleFunctions)) kvEntry
   \<and> fst (ApproveChaincodeDefinitionForOrg sampleFunctions ''mycc'' (sampleDefinition 1 ''1.0'')
            None [] sampleOrgWithSource) = None
   \<and> kvEntry sampleOrgWithSource ''namespaces'' ''mycc#1''
       = Some (ParametersStruct
           \<lparr>EndorsementInfo =
              \<lparr>Version = ''0.9'', EndorsementPlugin = ''builtin'', InitRequired = True\<rparr>,
            ValidationInfo = \<lparr>ValidationPlugin = ''builtin'', ValidationParameter = [1, 2]\<rparr>,
            Collections = Some 7\<rparr>)
   \<and> kvEntry (snd (ApproveChaincodeDefinitionForOrg sampleFunctions ''mycc''
                     (sampleDefinition 1 ''1.0'') None [] sampleOrgWithSource))
       ''namespaces'' ''mycc#1''
       = Some (ParametersStruct
           \<lparr>EndorsementInfo =
              \<lparr>Version = ''1.0'', EndorsementPlugin = ''builtin'', InitRequired = True\<rparr>,
            ValidationInfo = \<lparr>ValidationPlugin = ''builtin'', ValidationParameter = [1, 2]\<rparr>,
            Collections = Some 7\<rparr>)
   \<and> kvEntry (snd (ApproveChaincodeDefinitionForOrg sampleFunctions ''mycc''
                     (sampleDefinition 1 ''1.0'') None [] sampleOrgWithSource))
       ''chaincode-sources'' ''mycc#1''
       = Some (LocalPackageStruct \<lparr>Hash = [4, 2]\<rparr>)
   \<and> fst (ApproveChaincodeDefinitionForOrg sampleFunctions ''mycc'' (sampleDefinition 12 ''3.0'')
            (Some [9]) (samplePublic 11 ''1.0'') sampleOrgWithSource) = None
   \<and> kvEntry (snd (ApproveChaincodeDefinitionForOrg sampleFunctions ''mycc''
                     (sampleDefinition 12 ''3.0'') (Some [9]) (samplePublic 11 ''1.0'')
                     sampleOrgWithSource))
       ''namespaces'' ''mycc#12''
       = Some (ParametersStruct
           \<lparr>EndorsementInfo =
              \<lparr>Version = ''3.0'', EndorsementPlugin = ''builtin'', InitRequired = True\<rparr>,
            ValidationInfo = \<lparr>ValidationPlugin = ''builtin'', ValidationParameter = [1, 2]\<rparr>,
            Collections = Some 7\<rparr>)
   \<and> kvEntry (snd (ApproveChaincodeDefinitionForOrg sampleFunctions ''mycc''
                     (sampleDefinition 12 ''3.0'') (Some [9]) (samplePublic 11 ''1.0'')
                     sampleOrgWithSource))
       ''chaincode-sources'' ''mycc#12''
       = Some (LocalPackageStruct \<lparr>Hash = [9]\<rparr>)
   \<and> kvEntry (snd (ApproveChaincodeDefinitionForOrg sampleFunctions ''mycc''
                     (sampleDefinition 12 ''3.0'') (Some [9]) (samplePublic 11 ''1.0'')
                     sampleOrgWithSource))
       ''namespaces'' ''mycc#1''
       = Some (ParametersStruct
           \<lparr>EndorsementInfo =
              \<lparr>Version = ''0.9'', EndorsementPlugin = ''builtin'', InitRequired = True\<rparr>,
            ValidationInfo = \<lparr>ValidationPlugin = ''builtin'', ValidationParameter = [1, 2]\<rparr>,
            Collections = Some 7\<rparr>)
   \<and> kvEntry (snd (ApproveChaincodeDefinitionForOrg sampleFunctions ''mycc''
                     (sampleDefinition 12 ''3.0'') (Some [9]) (samplePublic 11 ''1.0'')
                     sampleOrgWithSource))
       ''chaincode-sources'' ''mycc#1''
       = Some (LocalPackageStruct \<lparr>Hash = [4, 2]\<rparr>)"
proof -
  let ?none = "ApproveChaincodeDefinitionForOrg sampleFunctions ''mycc''
                 (sampleDefinition 1 ''1.0'') None [] sampleOrgWithSource"
  let ?some = "ApproveChaincodeDefinitionForOrg sampleFunctions ''mycc''
                 (sampleDefinition 12 ''3.0'') (Some [9]) (samplePublic 11 ''1.0'')
                 sampleOrgWithSource"
  have c: "writesEntry (Serializer (Resources sampleFunctions)) kvEntry"
    by (simp add: sampleFunctions_def kv_writesEntry)
  have k1: "''mycc'' @ ''#'' @ format_int64 (Sequence (sampleDefinition 1 ''1.0'')) = ''mycc#1''"
    using privateName_mycc_1 by (simp add: sampleDefinition_def privateName_def)
  have k12: "''mycc'' @ ''#'' @ format_int64 (Sequence (sampleDefinition 12 ''3.0''))
               = ''mycc#12''"
    using privateName_mycc_12 by (simp add: sampleDefinition_def privateName_def)
  have fn: "fst ?none = None" and fs: "fst ?some = None"
    by (simp_all add: approve_sample_no_hash approve_sample_hash)
  then have n: "?none = (None, snd ?none)" and s: "?some = (None, snd ?some)"
    by (simp_all add: prod_eq_iff)
  have before: "kvEntry sampleOrgWithSource ''namespaces'' ''mycc#1''
       = Some (ParametersStruct
           \<lparr>EndorsementInfo =
              \<lparr>Version = ''0.9'', EndorsementPlugin = ''builtin'', InitRequired = True\<rparr>,
            ValidationInfo = \<lparr>ValidationPlugin = ''builtin'', ValidationParameter = [1, 2]\<rparr>,
            Collections = Some 7\<rparr>)"
    and source: "kvEntry sampleOrgWithSource ''chaincode-sources'' ''mycc#1''
                  = Some (LocalPackageStruct \<lparr>Hash = [4, 2]\<rparr>)"
    by (simp_all add: kvEntry_def sampleOrgWithSource_def sampleParameters_def)
  note tn = approve_writes_entries [OF n c, unfolded k1, THEN conjunct2]
  note ts = approve_writes_entries [OF s c, unfolded k12, THEN conjunct2]
  from tn have n1: "kvEntry (snd ?none) ''namespaces'' ''mycc#1''
       = Some (ParametersStruct
           \<lparr>EndorsementInfo =
              \<lparr>Version = ''1.0'', EndorsementPlugin = ''builtin'', InitRequired = True\<rparr>,
            ValidationInfo = \<lparr>ValidationPlugin = ''builtin'', ValidationParameter = [1, 2]\<rparr>,
            Collections = Some 7\<rparr>)"
    by (simp add: NamespacesName_def sampleDefinition_def)
  from tn source have n2: "kvEntry (snd ?none) ''chaincode-sources'' ''mycc#1''
                             = Some (LocalPackageStruct \<lparr>Hash = [4, 2]\<rparr>)"
    by (simp add: ChaincodeSourcesName_def)
  from ts have s1: "kvEntry (snd ?some) ''namespaces'' ''mycc#12''
       = Some (ParametersStruct
           \<lparr>EndorsementInfo =
              \<lparr>Version = ''3.0'', EndorsementPlugin = ''builtin'', InitRequired = True\<rparr>,
            ValidationInfo = \<lparr>ValidationPlugin = ''builtin'', ValidationParameter = [1, 2]\<rparr>,
            Collections = Some 7\<rparr>)"
    by (simp add: NamespacesName_def sampleDefinition_def)
  from ts have s2: "kvEntry (snd ?some) ''chaincode-sources'' ''mycc#12''
                      = Some (LocalPackageStruct \<lparr>Hash = [9]\<rparr>)"
    by (simp add: ChaincodeSourcesName_def)
  from ts have frame: "\<And>ns k. (ns, k) \<noteq> (NamespacesName, ''mycc#12'') \<Longrightarrow>
                          (ns, k) \<noteq> (ChaincodeSourcesName, ''mycc#12'') \<Longrightarrow>
                          kvEntry (snd ?some) ns k = kvEntry sampleOrgWithSource ns k"
    by blast
  from frame [of "''namespaces''" "''mycc#1''"] before
  have s3: "kvEntry (snd ?some) ''namespaces'' ''mycc#1''
       = Some (ParametersStruct
           \<lparr>EndorsementInfo =
              \<lparr>Version = ''0.9'', EndorsementPlugin = ''builtin'', InitRequired = True\<rparr>,
            ValidationInfo = \<lparr>ValidationPlugin = ''builtin'', ValidationParameter = [1, 2]\<rparr>,
            Collections = Some 7\<rparr>)"
    by simp
  from frame [of "''chaincode-sources''" "''mycc#1''"] source
  have s4: "kvEntry (snd ?some) ''chaincode-sources'' ''mycc#1''
              = Some (LocalPackageStruct \<lparr>Hash = [4, 2]\<rparr>)"
    by simp
  from c fn before n1 n2 fs s1 s2 s3 s4 show ?thesis by (intro conjI)
qed

subsection \<open>Approve: errors and the org state\<close>

text \<open>
  The claim that the org state is unchanged on every error return does not hold as it
  stands: the write of the package record comes after the write of the parameters, and
  its failure is returned as an error. Here \<open>mycc\<close> is undefined, sequence 1 is approved
  with a package hash over an empty org state, and the serializer refuses writes to the
  namespace of the chaincode sources: the call returns an error and the org state holds the
  parameters.
\<close>

theorem approve_error_counterexample:
  "ApproveChaincodeDefinitionForOrg (withSerialize failingSourceWrites sampleFunctions) ''mycc''
     (sampleDefinition 1 ''1.0'') (Some [9]) [] []
   = (Some (CouldNotSerializeChaincodePackageInfo (ExternalError ''write failed'')),
      [((''namespaces'', ''mycc#1''), ParametersStruct (Parameters (sampleDefinition 1 ''1.0'')))])
   \<and> [((''namespaces'', ''mycc#1''), ParametersStruct (Parameters (sampleDefinition 1 ''1.0'')))]
       \<noteq> ([] :: nat kvstate)"
  by (simp add: ApproveChaincodeDefinitionForOrg_def sample_defs withSerialize_def
        failingSourceWrites_def privateName_mycc_1 word_sless_alt Let_def)

text \<open>
  Claim C7, amended. An approval that returns an error other than the two errors of its
  writes leaves the org state as it was: the sequence that cannot be read, sequence 0, a
  superseded or skipped sequence, metadata that cannot be fetched or is missing, a
  definition that cannot be deserialized and parameters that differ are all found before
  the first write.
\<close>

theorem approve_validation_error_writes_nothing:
  assumes "ApproveChaincodeDefinitionForOrg ef name cd localPackageHash publicState orgState
             = (Some err, orgState')"
    and "\<not> isWriteError err"
  shows "orgState' = orgState"
  using assms
  by (auto simp: ApproveChaincodeDefinitionForOrg_def Let_def
           split: sum.splits if_splits prod.splits option.splits)

text \<open>
  An instance: \<open>mycc\<close> is committed at sequence 1 with version 1.0, and version 2.0 is
  approved at sequence 1 with a package hash.
\<close>

theorem approve_validation_error_writes_nothing_witness:
  "ApproveChaincodeDefinitionForOrg sampleFunctions ''mycc'' (sampleDefinition 1 ''2.0'')
     (Some [9]) (samplePublic 1 ''1.0'') sampleOrgWithSource
   = (Some (AttemptedToDefineCurrentSequence (VersionMismatch ''1.0'' ''2.0'')),
      snd (ApproveChaincodeDefinitionForOrg sampleFunctions ''mycc'' (sampleDefinition 1 ''2.0'')
             (Some [9]) (samplePublic 1 ''1.0'') sampleOrgWithSource))
   \<and> \<not> isWriteError (AttemptedToDefineCurrentSequence (VersionMismatch ''1.0'' ''2.0''))
   \<and> snd (ApproveChaincodeDefinitionForOrg sampleFunctions ''mycc'' (sampleDefinition 1 ''2.0'')
            (Some [9]) (samplePublic 1 ''1.0'') sampleOrgWithSource) = sampleOrgWithSource"
proof -
  let ?r = "ApproveChaincodeDefinitionForOrg sampleFunctions ''mycc''
              (sampleDefinition 1 ''2.0'') (Some [9]) (samplePublic 1 ''1.0'') sampleOrgWithSource"
  have f: "fst ?r = Some (AttemptedToDefineCurrentSequence (VersionMismatch ''1.0'' ''2.0''))"
    by (simp add: ApproveChaincodeDefinitionForOrg_def sample_defs Equal_def Parameters_def
          word_sless_alt)
  then have h1: "?r = (Some (AttemptedToDefineCurrentSequence (VersionMismatch ''1.0'' ''2.0'')),
                       snd ?r)"
    by (simp add: prod_eq_iff)
  have h2: "\<not> isWriteError (AttemptedToDefineCurrentSequence (VersionMismatch ''1.0'' ''2.0''))"
    by simp
  have "snd ?r = sampleOrgWithSource"
    by (rule approve_validation_error_writes_nothing [OF h1 h2])
  with h1 h2 show ?thesis by (intro conjI)
qed

subsection \<open>Absent namespaces\<close>

text \<open>
  The name of the lifecycle namespace is always defined: the lookup of the resources
  answers it with a definition of its own making, whatever the state holds.
\<close>

lemma lifecycle_namespace_is_defined:
  "ChaincodeDefinitionIfDefined LifecycleNamespace r LifecycleNamespace state
     = (True,
        Some \<lparr>EndorsementInfo = \<lparr>Version = [], EndorsementPlugin = [], InitRequired = False\<rparr>,
              ValidationInfo = \<lparr>ValidationPlugin = [], ValidationParameter = []\<rparr>,
              Collections = None,
              Sequence = 0\<rparr>,
        None)"
  by (simp add: ChaincodeDefinitionIfDefined_def)

text \<open>
  Claim C8. A name is undefined when it is not the name of the lifecycle namespace, which
  is always defined, and has no public metadata. For every undefined name
  \<open>ChaincodeDefinitionIfDefined\<close> answers \<^verbatim>\<open>(false, nil, nil)\<close>, with no error.
  \<open>QueryChaincodeDefinition\<close> returns an error for every name without public metadata,
  the name of the lifecycle namespace included. For a name other than the lifecycle
  namespace whose metadata is there with a type tag that is not the tag of a chaincode
  definition, \<open>ChaincodeDefinitionIfDefined\<close> returns an error and not the negative
  answer.
\<close>

theorem absent_namespace:
  "(DeserializeMetadata (Serializer (Resources ef)) NamespacesName chaincodeName state
      = Inr None \<longrightarrow>
    (chaincodeName \<noteq> LifecycleNamespace \<longrightarrow>
       ChaincodeDefinitionIfDefined LifecycleNamespace (Resources ef) chaincodeName state
         = (False, None, None))
    \<and> QueryChaincodeDefinition ef chaincodeName state
        = (None, Some (NamespaceIsNotDefined chaincodeName)))
   \<and> (\<forall>metadata.
        chaincodeName \<noteq> LifecycleNamespace \<and>
        DeserializeMetadata (Serializer (Resources ef)) NamespacesName chaincodeName state
          = Inr (Some metadata) \<and>
        Datatype metadata \<noteq> ChaincodeDefinitionType \<longrightarrow>
        ChaincodeDefinitionIfDefined LifecycleNamespace (Resources ef) chaincodeName state
          = (False, None, Some (NotAChaincodeType (Datatype metadata)))
        \<and> ChaincodeDefinitionIfDefined LifecycleNamespace (Resources ef) chaincodeName state
          \<noteq> (False, None, None))"
proof (intro conjI impI allI)
  assume "DeserializeMetadata (Serializer (Resources ef)) NamespacesName chaincodeName state
            = Inr None"
    and "chaincodeName \<noteq> LifecycleNamespace"
  then show "ChaincodeDefinitionIfDefined LifecycleNamespace (Resources ef) chaincodeName state
               = (False, None, None)"
    by (simp add: ChaincodeDefinitionIfDefined_def)
next
  assume "DeserializeMetadata (Serializer (Resources ef)) NamespacesName chaincodeName state
            = Inr None"
  then show "QueryChaincodeDefinition ef chaincodeName state
               = (None, Some (NamespaceIsNotDefined chaincodeName))"
    by (simp add: QueryChaincodeDefinition_def)
next
  fix metadata
  assume h: "chaincodeName \<noteq> LifecycleNamespace \<and>
        DeserializeMetadata (Serializer (Resources ef)) NamespacesName chaincodeName state
          = Inr (Some metadata) \<and>
        Datatype metadata \<noteq> ChaincodeDefinitionType"
  then show e: "ChaincodeDefinitionIfDefined LifecycleNamespace (Resources ef) chaincodeName
                  state = (False, None, Some (NotAChaincodeType (Datatype metadata)))"
    by (simp add: ChaincodeDefinitionIfDefined_def)
  then show "ChaincodeDefinitionIfDefined LifecycleNamespace (Resources ef) chaincodeName state
               \<noteq> (False, None, None)"
    by simp
qed

text \<open>
  Three instances, with the lifecycle namespace called \<open>_lifecycle\<close>: the undefined name
  \<open>mycc\<close> in the empty state; the query for \<open>_lifecycle\<close> itself in the empty state;
  and the name \<open>other\<close>, whose metadata carries the tag of chaincode parameters.
\<close>

theorem absent_namespace_witness:
  "''mycc'' \<noteq> ''_lifecycle''
   \<and> DeserializeMetadata (Serializer (Resources sampleFunctions)) NamespacesName ''mycc'' []
       = Inr None
   \<and> ChaincodeDefinitionIfDefined ''_lifecycle'' (Resources sampleFunctions) ''mycc'' []
       = (False, None, None)
   \<and> QueryChaincodeDefinition sampleFunctions ''mycc'' []
       = (None, Some (NamespaceIsNotDefined ''mycc''))
   \<and> DeserializeMetadata (Serializer (Resources sampleFunctions)) NamespacesName ''_lifecycle''
       [] = Inr None
   \<and> QueryChaincodeDefinition sampleFunctions ''_lifecycle'' []
       = (None, Some (NamespaceIsNotDefined ''_lifecycle''))
   \<and> ''other'' \<noteq> ''_lifecycle''
   \<and> DeserializeMetadata (Serializer (Resources sampleFunctions)) NamespacesName ''other''
       sampleMixedPublic
       = Inr (Some \<lparr>Datatype = ''ChaincodeParameters'',
                     Fields = [''EndorsementInfo'', ''ValidationInfo'', ''Collections'']\<rparr>)
   \<and> ''ChaincodeParameters'' \<noteq> ChaincodeDefinitionType
   \<and> ChaincodeDefinitionIfDefined ''_lifecycle'' (Resources sampleFunctions) ''other''
       sampleMixedPublic
       = (False, None, Some (NotAChaincodeType ''ChaincodeParameters''))"
proof -
  let ?md = "\<lparr>Datatype = ''ChaincodeParameters'',
              Fields = [''EndorsementInfo'', ''ValidationInfo'', ''Collections'']\<rparr>"
  have n1: "''mycc'' \<noteq> ''_lifecycle''" and n2: "''other'' \<noteq> ''_lifecycle''"
    by simp_all
  have a: "DeserializeMetadata (Serializer (Resources sampleFunctions)) NamespacesName ''mycc''
             [] = Inr None"
    and a': "DeserializeMetadata (Serializer (Resources sampleFunctions)) NamespacesName
               ''_lifecycle'' [] = Inr None"
    by (simp_all add: sample_defs)
  have b: "DeserializeMetadata (Serializer (Resources sampleFunctions)) NamespacesName ''other''
             sampleMixedPublic = Inr (Some ?md)"
    by (simp add: sample_defs sampleMixedPublic_def)
  have t: "''ChaincodeParameters'' \<noteq> ChaincodeDefinitionType"
    by (simp add: ChaincodeDefinitionType_def)
  from absent_namespace [of sampleFunctions "''mycc''" "[]" "''_lifecycle''", THEN conjunct1]
    a n1
  have c1: "ChaincodeDefinitionIfDefined ''_lifecycle'' (Resources sampleFunctions) ''mycc'' []
              = (False, None, None)"
    and c2: "QueryChaincodeDefinition sampleFunctions ''mycc'' []
              = (None, Some (NamespaceIsNotDefined ''mycc''))"
    by simp_all
  from absent_namespace [of sampleFunctions "''_lifecycle''" "[]" "''_lifecycle''",
      THEN conjunct1] a'
  have c2': "QueryChaincodeDefinition sampleFunctions ''_lifecycle'' []
               = (None, Some (NamespaceIsNotDefined ''_lifecycle''))"
    by simp
  from absent_namespace [of sampleFunctions "''other''" sampleMixedPublic "''_lifecycle''",
      THEN conjunct2, rule_format, of ?md] b t n2
  have c3: "ChaincodeDefinitionIfDefined ''_lifecycle'' (Resources sampleFunctions) ''other''
              sampleMixedPublic
              = (False, None, Some (NotAChaincodeType ''ChaincodeParameters''))"
    by simp
  from n1 a c1 c2 a' c2' n2 b t c3 show ?thesis by (intro conjI)
qed

subsection \<open>Install\<close>

text \<open>
  Claim C9. When the package does not parse, the install returns the error, the store is
  as before (the result does not depend on \<open>Save\<close>) and the listener is not told. When it
  parses, the store after the call is the store \<open>Save\<close> leaves for the raw package: if
  \<open>Save\<close> answers a hash, the hash is returned and a registered listener is applied once,
  to the metadata of the parsed package and the hash; if \<open>Save\<close> fails, the error is
  returned and the listener is not told.
\<close>

theorem install_chaincode:
  "(\<forall>err. Parse (PackageParser (Resources ef)) chaincodeInstallPackage = Inl err \<longrightarrow>
      InstallChaincode ef name version chaincodeInstallPackage store listener
        = ((None, Some (CouldNotParseInstallPackage err)), store, listener))
   \<and> (\<forall>pkg hash store'.
        Parse (PackageParser (Resources ef)) chaincodeInstallPackage = Inr pkg \<and>
        Save (ChaincodeStore (Resources ef)) name version chaincodeInstallPackage store
          = (Inr hash, store') \<longrightarrow>
        InstallChaincode ef name version chaincodeInstallPackage store listener
          = ((Some hash, None), store',
             (case InstallListener ef of
                None \<Rightarrow> listener
              | Some l \<Rightarrow> HandleChaincodeInstalled l (Metadata pkg) hash listener)))
   \<and> (\<forall>pkg err store'.
        Parse (PackageParser (Resources ef)) chaincodeInstallPackage = Inr pkg \<and>
        Save (ChaincodeStore (Resources ef)) name version chaincodeInstallPackage store
          = (Inl err, store') \<longrightarrow>
        InstallChaincode ef name version chaincodeInstallPackage store listener
          = ((None, Some (CouldNotSaveInstallPackage err)), store', listener))"
proof (cases "Parse (PackageParser (Resources ef)) chaincodeInstallPackage")
  case (Inl err)
  then show ?thesis
    by (simp add: InstallChaincode_def)
next
  case (Inr pkg)
  obtain saved store' where
    s: "Save (ChaincodeStore (Resources ef)) name version chaincodeInstallPackage store
          = (saved, store')"
    by (cases "Save (ChaincodeStore (Resources ef)) name version chaincodeInstallPackage store")
  show ?thesis
  proof (cases saved)
    case (Inl err)
    with Inr s show ?thesis
      by (simp add: InstallChaincode_def)
  next
    case (Inr hash)
    with \<open>Parse (PackageParser (Resources ef)) chaincodeInstallPackage = Inr pkg\<close> s
    show ?thesis
      by (simp add: InstallChaincode_def)
  qed
qed

text \<open>
  Three instances with the sample parser, store and listener, which starts with an empty
  log: the empty package does not parse; the package 5, 6 is saved and the listener logs
  one notification; with an empty version the store refuses and nothing is logged.
\<close>

theorem install_chaincode_witness:
  "Parse (PackageParser (Resources sampleFunctions)) [] = Inl (ExternalError ''empty package'')
   \<and> InstallChaincode sampleFunctions ''mycc'' ''1.0'' [] [] []
       = ((None, Some (CouldNotParseInstallPackage (ExternalError ''empty package''))), [], [])
   \<and> Parse (PackageParser (Resources sampleFunctions)) [5, 6] = Inr \<lparr>Metadata = 5\<rparr>
   \<and> Save (ChaincodeStore (Resources sampleFunctions)) ''mycc'' ''1.0'' [5, 6] []
       = (Inr [2], [(''mycc'', ''1.0'', [5, 6])])
   \<and> InstallChaincode sampleFunctions ''mycc'' ''1.0'' [5, 6] [] []
       = ((Some [2], None), [(''mycc'', ''1.0'', [5, 6])], [(5, [2])])
   \<and> Save (ChaincodeStore (Resources sampleFunctions)) ''mycc'' [] [5, 6] []
       = (Inl (ExternalError ''no version''), [])
   \<and> InstallChaincode sampleFunctions ''mycc'' [] [5, 6] [] []
       = ((None, Some (CouldNotSaveInstallPackage (ExternalError ''no version''))), [], [])"
proof -
  have p0: "Parse (PackageParser (Resources sampleFunctions)) []
              = Inl (ExternalError ''empty package'')"
    and p1: "Parse (PackageParser (Resources sampleFunctions)) [5, 6] = Inr \<lparr>Metadata = 5\<rparr>"
    by (simp_all add: sampleFunctions_def sampleParser_def)
  have s1: "Save (ChaincodeStore (Resources sampleFunctions)) ''mycc'' ''1.0'' [5, 6] []
              = (Inr [2], [(''mycc'', ''1.0'', [5, 6])])"
    and s0: "Save (ChaincodeStore (Resources sampleFunctions)) ''mycc'' [] [5, 6] []
              = (Inl (ExternalError ''no version''), [])"
    by (simp_all add: sampleFunctions_def sampleStore_def)
  have l: "InstallListener sampleFunctions = Some sampleListener"
    by (simp add: sampleFunctions_def)
  from install_chaincode [of sampleFunctions "[]" "''mycc''" "''1.0''" "[]" "[]",
      THEN conjunct1] p0
  have a: "InstallChaincode sampleFunctions ''mycc'' ''1.0'' [] [] []
       = ((None, Some (CouldNotParseInstallPackage (ExternalError ''empty package''))), [], [])"
    by blast
  from install_chaincode [of sampleFunctions "[5, 6]" "''mycc''" "''1.0''" "[]" "[]",
      THEN conjunct2, THEN conjunct1] p1 s1
  have "InstallChaincode sampleFunctions ''mycc'' ''1.0'' [5, 6] [] []
       = ((Some [2], None), [(''mycc'', ''1.0'', [5, 6])],
          (case InstallListener sampleFunctions of
             None \<Rightarrow> []
           | Some l \<Rightarrow> HandleChaincodeInstalled l (Metadata \<lparr>Metadata = 5 :: byte\<rparr>) [2] []))"
    by blast
  then have b: "InstallChaincode sampleFunctions ''mycc'' ''1.0'' [5, 6] [] []
       = ((Some [2], None), [(''mycc'', ''1.0'', [5, 6])], [(5, [2])])"
    by (simp add: l sampleListener_def)
  from install_chaincode [of sampleFunctions "[5, 6]" "''mycc''" "[]" "[]" "[]",
      THEN conjunct2, THEN conjunct2] p1 s0
  have c: "InstallChaincode sampleFunctions ''mycc'' [] [5, 6] [] []
       = ((None, Some (CouldNotSaveInstallPackage (ExternalError ''no version''))), [], [])"
    by blast
  from p0 a p1 s1 b s0 c show ?thesis by (intro conjI)
qed

subsection \<open>The namespace query\<close>

text \<open>
  Claim C10. When the metadata of the public namespaces is enumerated (a Go map, so no
  key comes twice), the query returns no error and a map whose keys are the enumerated
  namespaces: a namespace with the tag of a chaincode definition maps to the friendly
  name, any other namespace maps to its own tag.
\<close>

theorem query_namespace_definitions:
  assumes "DeserializeAllMetadata (Serializer (Resources ef)) NamespacesName publicState
             = Inr metadatas"
    and "distinct (map fst metadatas)"
  shows "\<exists>result.
           QueryNamespaceDefinitions ef publicState = (Some result, None) \<and>
           dom result = fst ` set metadatas \<and>
           (\<forall>(key, val) \<in> set metadatas.
              result key =
                Some (if Datatype val = ChaincodeDefinitionType
                      then FriendlyChaincodeDefinitionType else Datatype val))"
proof -
  let ?result = "namespaceLoop Map.empty metadatas"
  have q: "QueryNamespaceDefinitions ef publicState = (Some ?result, None)"
    using assms(1) by (simp add: QueryNamespaceDefinitions_def)
  have d: "dom ?result = fst ` set metadatas"
  proof -
    have "dom ?result = dom (map_of (rev metadatas))"
      by (auto simp: namespaceLoop_lookup dom_def split: option.splits)
    also have "\<dots> = fst ` set metadatas"
      by (simp add: dom_map_of_conv_image_fst)
    finally show ?thesis .
  qed
  have v: "\<forall>(key, val) \<in> set metadatas.
             ?result key =
               Some (if Datatype val = ChaincodeDefinitionType
                     then FriendlyChaincodeDefinitionType else Datatype val)"
    using map_of_rev_distinct [OF assms(2)]
    by (auto simp: namespaceLoop_lookup)
  from q d v show ?thesis by blast
qed

text \<open>
  An instance: the public state holds the chaincode \<open>mycc\<close> and the namespace \<open>other\<close>
  with the tag of chaincode parameters.
\<close>

theorem query_namespace_definitions_witness:
  "DeserializeAllMetadata (Serializer (Resources sampleFunctions)) NamespacesName
     sampleMixedPublic
     = Inr [(''mycc'', metadataOf (DefinitionStruct (sampleDefinition 1 ''1.0''))),
            (''other'', metadataOf (ParametersStruct (Parameters (sampleDefinition 1 ''1.0''))))]
   \<and> distinct (map fst
         [(''mycc'', metadataOf (DefinitionStruct (sampleDefinition 1 ''1.0''))),
          (''other'', metadataOf (ParametersStruct (Parameters (sampleDefinition 1 ''1.0''))))])
   \<and> (\<exists>result.
         QueryNamespaceDefinitions sampleFunctions sampleMixedPublic = (Some result, None) \<and>
         dom result = {''mycc'', ''other''} \<and>
         result ''mycc'' = Some ''Chaincode'' \<and>
         result ''other'' = Some ''ChaincodeParameters'')"
proof -
  let ?mds = "[(''mycc'', metadataOf (DefinitionStruct (sampleDefinition 1 ''1.0''))),
               (''other'',
                metadataOf (ParametersStruct (Parameters (sampleDefinition 1 ''1.0''))))]"
  have h1: "DeserializeAllMetadata (Serializer (Resources sampleFunctions)) NamespacesName
              sampleMixedPublic = Inr ?mds"
    by (simp add: sample_defs sampleMixedPublic_def)
  have h2: "distinct (map fst ?mds)"
    by simp
  from query_namespace_definitions [OF h1 h2] obtain result where
    q: "QueryNamespaceDefinitions sampleFunctions sampleMixedPublic = (Some result, None)"
    and d: "dom result = fst ` set ?mds"
    and v: "\<forall>(key, val) \<in> set ?mds.
              result key =
                Some (if Datatype val = ChaincodeDefinitionType
                      then FriendlyChaincodeDefinitionType else Datatype val)"
    by blast
  from d have d': "dom result = {''mycc'', ''other''}"
    by simp
  from v have "result ''mycc'' = Some ''Chaincode''"
    and "result ''other'' = Some ''ChaincodeParameters''"
    by (simp_all add: ChaincodeDefinitionType_def FriendlyChaincodeDefinitionType_def)
  with q d' have "\<exists>result.
         QueryNamespaceDefinitions sampleFunctions sampleMixedPublic = (Some result, None) \<and>
         dom result = {''mycc'', ''other''} \<and>
         result ''mycc'' = Some ''Chaincode'' \<and>
         result ''other'' = Some ''ChaincodeParameters''"
    by blast
  with h1 h2 show ?thesis by (intro conjI)
qed

end
